theory Spec2Isabelle
  imports Main
begin

chapter \<open>The WeChat json\_bot channel plugin\<close>

text \<open>
  A shallow embedding of the plugin's three source files
  (\<^verbatim>\<open>extensions/wechat-jsonbot/src/channel.ts\<close>, \<^verbatim>\<open>webhook.ts\<close> and \<^verbatim>\<open>runtime.ts\<close>):
  target normalisation, the outbound send functions, the inbound webhook handler and the
  onboarding operations.

  Conventions. A JavaScript string is the list of its UTF-16 code units; \<open>trim\<close> removes
  every ECMAScript white space and line terminator. A buffer is a list of bytes. A
  JavaScript number is a value of a type parameter \<open>'n\<close>: no arithmetic on floating-point
  numbers is modelled. A function that can throw returns a sum whose left injection holds
  the exception. What the JavaScript runtime and the host provide (\<^verbatim>\<open>JSON.parse\<close>,
  \<^verbatim>\<open>JSON.stringify\<close>, the decoding of a buffer, the formatting and rounding of numbers,
  \<^verbatim>\<open>fetch\<close>, the clock, the host's configuration and its services) is a parameter of the
  function that uses it.
\<close>

section \<open>Strings\<close>

text \<open>
  A JavaScript string is the list of its UTF-16 code units, each a natural number below
  65536. \<open>js\<close> writes an ASCII literal as such a string.
\<close>

type_synonym jsstring = "nat list"

definition js :: "string \<Rightarrow> jsstring" where
  "js s = map of_char s"

text \<open>
  The code units \<^verbatim>\<open>String.prototype.trim\<close> removes: ECMAScript's white space (tab, vertical
  tab, form feed, space, no-break space, the byte order mark U+FEFF and the other space
  separators U+1680, U+2000 to U+200A, U+202F, U+205F, U+3000) and line terminators (line
  feed, carriage return, U+2028, U+2029).
\<close>

definition is_ws :: "nat \<Rightarrow> bool" where
  "is_ws c = (c \<in> set [0x0009, 0x000A, 0x000B, 0x000C, 0x000D, 0x0020, 0x00A0, 0x1680,
     0x2000, 0x2001, 0x2002, 0x2003, 0x2004, 0x2005, 0x2006, 0x2007, 0x2008, 0x2009, 0x200A,
     0x2028, 0x2029, 0x202F, 0x205F, 0x3000, 0xFEFF])"

definition trimStart :: "jsstring \<Rightarrow> jsstring" where
  "trimStart s = dropWhile is_ws s"

definition trimEnd :: "jsstring \<Rightarrow> jsstring" where
  "trimEnd s = rev (dropWhile is_ws (rev s))"

text \<open>\<^verbatim>\<open>s.trim()\<close>\<close>

definition trim :: "jsstring \<Rightarrow> jsstring" where
  "trim s = trimEnd (trimStart s)"

text \<open>
  The case mappings are those of the ASCII letters; other code units are left as they
  are. That is all the source's uses can observe: a string whose lower-case form starts
  with \<^verbatim>\<open>bearer \<close> starts with these ASCII letters in some case, and the case folding
  of the regular expression flag \<^verbatim>\<open>i\<close> never identifies a code unit outside ASCII with one
  inside. The request method is an ASCII token.
\<close>

definition upper_letters :: jsstring where
  "upper_letters = js ''ABCDEFGHIJKLMNOPQRSTUVWXYZ''"

definition lower_letters :: jsstring where
  "lower_letters = js ''abcdefghijklmnopqrstuvwxyz''"

definition toLowerCase_char :: "nat \<Rightarrow> nat" where
  "toLowerCase_char c =
     (case map_of (zip upper_letters lower_letters) c of Some l \<Rightarrow> l | None \<Rightarrow> c)"

definition toUpperCase_char :: "nat \<Rightarrow> nat" where
  "toUpperCase_char c =
     (case map_of (zip lower_letters upper_letters) c of Some u \<Rightarrow> u | None \<Rightarrow> c)"

text \<open>\<^verbatim>\<open>s.toLowerCase()\<close> and \<^verbatim>\<open>s.toUpperCase()\<close>\<close>

definition toLowerCase :: "jsstring \<Rightarrow> jsstring" where
  "toLowerCase s = map toLowerCase_char s"

definition toUpperCase :: "jsstring \<Rightarrow> jsstring" where
  "toUpperCase s = map toUpperCase_char s"

text \<open>\<^verbatim>\<open>s.startsWith(p)\<close>\<close>

definition startsWith :: "jsstring \<Rightarrow> jsstring \<Rightarrow> bool" where
  "startsWith s p = (take (length p) s = p)"

text \<open>
  A regular expression \<^verbatim>\<open>/^lit/i\<close> for a literal \<open>lit\<close> matches at the start of \<open>s\<close> when
  the first \<open>length lit\<close> characters of \<open>s\<close> agree with \<open>lit\<close> after the case folding of
  the \<^verbatim>\<open>i\<close> flag, which compares upper-case forms.
\<close>

definition matches_prefix_i :: "jsstring \<Rightarrow> jsstring \<Rightarrow> bool" where
  "matches_prefix_i lit s =
     (length lit \<le> length s \<and> toUpperCase (take (length lit) s) = toUpperCase lit)"

section \<open>Target normalisation (channel.ts)\<close>

text \<open>
  \<^verbatim>\<open>.replace(/^(wechat|wx):/i, "")\<close>: the first alternative that matches at the start is
  removed, once; a string with neither prefix is returned as it is.
\<close>

definition strip_scheme :: "jsstring \<Rightarrow> jsstring" where
  "strip_scheme s =
     (if matches_prefix_i (js ''wechat:'') s then drop (length (js ''wechat:'')) s
      else if matches_prefix_i (js ''wx:'') s then drop (length (js ''wx:'')) s
      else s)"

definition normalizeWechatTarget :: "jsstring \<Rightarrow> jsstring" where
  "normalizeWechatTarget raw = trim (strip_scheme (trim raw))"

section \<open>Exceptions\<close>

datatype js_error = Error jsstring | TypeError jsstring | SyntaxError jsstring

text \<open>\<^verbatim>\<open>String(err)\<close>: the error's name, then its message when it has one.\<close>

definition named_message :: "jsstring \<Rightarrow> jsstring \<Rightarrow> jsstring" where
  "named_message n m = (if m = [] then n else n @ js '': '' @ m)"

fun String_error :: "js_error \<Rightarrow> jsstring" where
  "String_error (Error m) = named_message (js ''Error'') m"
| "String_error (TypeError m) = named_message (js ''TypeError'') m"
| "String_error (SyntaxError m) = named_message (js ''SyntaxError'') m"

section \<open>JSON values\<close>

text \<open>
  What \<^verbatim>\<open>JSON.parse\<close> returns: an object is the list of its own properties (the first
  binding of a key is the property), a number is a value of type \<open>'n\<close>.
\<close>

datatype 'n json =
    JNull | JBool bool | JNum 'n | JStr jsstring
  | JArr "'n json list" | JObj "(jsstring \<times> 'n json) list"

text \<open>
  The built-in functions the handler calls. \<open>JSON_parse\<close> gives the value or the
  \<^verbatim>\<open>SyntaxError\<close> thrown; \<open>Math_round_x1000 n\<close> is \<^verbatim>\<open>Math.round(n * 1000)\<close>;
  \<open>Buffer_toString\<close> is \<^verbatim>\<open>buf.toString("utf-8")\<close> on the bytes of a buffer.
\<close>

record 'n js_builtins =
  JSON_parse :: "jsstring \<Rightarrow> js_error + 'n json"
  JSON_stringify :: "'n json \<Rightarrow> jsstring"
  Number_toString :: "'n \<Rightarrow> jsstring"
  Number_isFinite :: "'n \<Rightarrow> bool"
  Math_round_x1000 :: "'n \<Rightarrow> int"
  Buffer_toString :: "string \<Rightarrow> jsstring"

text \<open>
  \<^verbatim>\<open>Buffer.byteLength(s)\<close>: the length of the UTF-8 encoding of \<open>s\<close>. A surrogate pair is
  one character of four bytes; a surrogate on its own is encoded as U+FFFD, three bytes.
\<close>

fun byteLength :: "jsstring \<Rightarrow> nat" where
  "byteLength [] = 0"
| "byteLength [c] = (if c < 0x80 then 1 else if c < 0x800 then 2 else 3)"
| "byteLength (c # d # cs) =
     (if c < 0x80 then 1 + byteLength (d # cs)
      else if c < 0x800 then 2 + byteLength (d # cs)
      else if 0xD800 \<le> c \<and> c \<le> 0xDBFF \<and> 0xDC00 \<le> d \<and> d \<le> 0xDFFF then 4 + byteLength cs
      else 3 + byteLength (d # cs))"

text \<open>\<^verbatim>\<open>parts.join(sep)\<close>\<close>

fun join_with :: "jsstring \<Rightarrow> jsstring list \<Rightarrow> jsstring" where
  "join_with sep [] = []"
| "join_with sep [x] = x"
| "join_with sep (x # y # ys) = x @ sep @ join_with sep (y # ys)"

text \<open>
  \<^verbatim>\<open>String(v)\<close> for a parsed value. An array is joined with commas, a \<^verbatim>\<open>null\<close> element
  giving the empty string. A plain object gives \<^verbatim>\<open>[object Object]\<close> through
  \<^verbatim>\<open>Object.prototype.toString\<close>, unless it has an own property \<^verbatim>\<open>toString\<close>: parsed from
  JSON that property is not a function, \<^verbatim>\<open>valueOf\<close> does not give a primitive either, and
  the conversion throws.
\<close>

fun ToString :: "'n js_builtins \<Rightarrow> 'n json \<Rightarrow> js_error + jsstring"
  and ToString_elements :: "'n js_builtins \<Rightarrow> 'n json list \<Rightarrow> js_error + jsstring list"
where
  "ToString js_env JNull = Inr (js ''null'')"
| "ToString js_env (JBool b) = Inr (if b then js ''true'' else js ''false'')"
| "ToString js_env (JNum n) = Inr (Number_toString js_env n)"
| "ToString js_env (JStr s) = Inr s"
| "ToString js_env (JArr xs) =
     (case ToString_elements js_env xs of
        Inl e \<Rightarrow> Inl e
      | Inr parts \<Rightarrow> Inr (join_with (js '','') parts))"
| "ToString js_env (JObj props) =
     (if map_of props (js ''toString'') \<noteq> None
      then Inl (TypeError (js ''Cannot convert object to primitive value''))
      else Inr (js ''[object Object]''))"
| "ToString_elements js_env [] = Inr []"
| "ToString_elements js_env (x # xs) =
     (case (if x = JNull then Inr [] else ToString js_env x) of
        Inl e \<Rightarrow> Inl e
      | Inr s \<Rightarrow> (case ToString_elements js_env xs of Inl e \<Rightarrow> Inl e | Inr ss \<Rightarrow> Inr (s # ss)))"

section \<open>Configuration and account resolution (channel.ts)\<close>

record WechatJsonBotAccountConfig =
  enabled :: "bool option"
  name :: "jsstring option"
  jsonBotBaseUrl :: "jsstring option"
  inboundToken :: "jsstring option"

record ResolvedWechatJsonBotAccount =
  accountId :: jsstring
  account_enabled :: bool
  account_name :: "jsstring option"
  config :: WechatJsonBotAccountConfig

text \<open>
  The host configuration: \<open>channels\<close> is optional, and the entry read under a channel key
  has the type the source casts it to.
\<close>

record OpenClawConfig =
  channels :: "(jsstring \<rightharpoonup> WechatJsonBotAccountConfig) option"

text \<open>
  Modelled from the spec: the constant \<^verbatim>\<open>DEFAULT_ACCOUNT_ID\<close> of the plugin SDK, which is
  not part of the plugin's sources; the spec calls it the single fixed default account id.
\<close>

definition DEFAULT_ACCOUNT_ID :: jsstring where
  "DEFAULT_ACCOUNT_ID = js ''default''"

definition empty_account_config :: WechatJsonBotAccountConfig where
  "empty_account_config =
     \<lparr>enabled = None, name = None, jsonBotBaseUrl = None, inboundToken = None\<rparr>"

definition resolveWechatConfig :: "OpenClawConfig \<Rightarrow> WechatJsonBotAccountConfig" where
  "resolveWechatConfig cfg =
     (case channels cfg of
        None \<Rightarrow> empty_account_config
      | Some chs \<Rightarrow>
          (case chs (js ''wechat'') of None \<Rightarrow> empty_account_config | Some raw \<Rightarrow> raw))"

definition resolveWechatAccount ::
  "OpenClawConfig \<Rightarrow> jsstring option \<Rightarrow> ResolvedWechatJsonBotAccount" where
  "resolveWechatAccount cfg requested =
     (let trimmed = trim (case requested of None \<Rightarrow> DEFAULT_ACCOUNT_ID | Some a \<Rightarrow> a);
          acc = resolveWechatConfig cfg
      in \<lparr>accountId = (if trimmed = [] then DEFAULT_ACCOUNT_ID else trimmed),
          account_enabled = (case enabled acc of Some b \<Rightarrow> b | None \<Rightarrow> True),
          account_name = name acc,
          config = acc\<rparr>)"

text \<open>
  \<^verbatim>\<open>trimmed.replace(/[\\/]+$/, "")\<close> removes the longest run of slashes and backslashes
  that ends the string.
\<close>

definition is_slash :: "nat \<Rightarrow> bool" where
  "is_slash c = (c = 0x5C \<or> c = 0x2F)"

definition strip_trailing_slashes :: "jsstring \<Rightarrow> jsstring" where
  "strip_trailing_slashes s = rev (dropWhile is_slash (rev s))"

text \<open>
  \<open>normalizeBaseUrl\<close>, the same in channel.ts and in webhook.ts (which returns \<^verbatim>\<open>null\<close> where
  channel.ts returns \<^verbatim>\<open>undefined\<close>).
\<close>

definition normalizeBaseUrl :: "jsstring option \<Rightarrow> jsstring option" where
  "normalizeBaseUrl raw =
     (let trimmed = trim (case raw of None \<Rightarrow> [] | Some r \<Rightarrow> r)
      in if trimmed = [] then None else Some (strip_trailing_slashes trimmed))"

section \<open>Outbound delivery (channel.ts)\<close>

record reply_payload =
  session_name :: jsstring
  content :: jsstring
  type :: jsstring

record post_params =
  post_url :: jsstring
  post_payload :: reply_payload
  timeoutMs :: nat

text \<open>
  One call of \<open>fetch\<close> as \<open>postJson\<close> issues it: a POST to \<open>call_url\<close> whose body is the
  JSON text of \<open>call_body\<close>, aborted by the timer after \<open>abort_ms\<close> milliseconds.
\<close>

record fetch_call =
  call_url :: jsstring
  call_body :: reply_payload
  abort_ms :: nat

text \<open>
  How a call ends: \<open>Responded status body statusText\<close> when \<open>fetch\<close> resolves with a
  response (\<open>body\<close> is what \<^verbatim>\<open>resp.text()\<close> gives, \<open>None\<close> when it rejects), \<open>Failed e\<close> when
  \<open>fetch\<close> rejects (network failure, or the abort of the timer) with an error whose string
  is \<open>e\<close>. The network answers a call knowing the calls made before it.
\<close>

datatype fetch_outcome = Responded nat "jsstring option" jsstring | Failed jsstring

type_synonym network = "fetch_call list \<Rightarrow> fetch_call \<Rightarrow> fetch_outcome"

record post_result =
  ok :: bool
  status :: "nat option"
  error :: "jsstring option"

text \<open>\<^verbatim>\<open>resp.ok\<close>: the status is in the range 200 to 299.\<close>

definition response_ok :: "nat \<Rightarrow> bool" where
  "response_ok st = (200 \<le> st \<and> st \<le> 299)"

definition fetch_call_of :: "post_params \<Rightarrow> fetch_call" where
  "fetch_call_of params =
     \<lparr>call_url = post_url params, call_body = post_payload params,
      abort_ms = max 1 (timeoutMs params)\<rparr>"

definition postJson :: "network \<Rightarrow> fetch_call list \<Rightarrow> post_params \<Rightarrow> post_result" where
  "postJson net earlier params =
     (case net earlier (fetch_call_of params) of
        Responded st body statusText \<Rightarrow>
          if \<not> response_ok st
          then let text = (case body of None \<Rightarrow> [] | Some t \<Rightarrow> t)
               in \<lparr>ok = False, status = Some st,
                   error = Some (if text \<noteq> [] then text else statusText)\<rparr>
          else \<lparr>ok = True, status = Some st, error = None\<rparr>
      | Failed e \<Rightarrow> \<lparr>ok = False, status = None, error = Some e\<rparr>)"

text \<open>
  \<^verbatim>\<open>String(n)\<close> for a natural number: its decimal digits. \<open>decimal\<close> gives them as a
  property name.
\<close>

definition digit_char :: "nat \<Rightarrow> char" where
  "digit_char d = ''0123456789'' ! d"

function decimal :: "nat \<Rightarrow> string" where
  "decimal n = (if n < 10 then [digit_char n] else decimal (n div 10) @ [digit_char (n mod 10)])"
  by pat_completeness auto
termination
  by (relation "measure (\<lambda>n. n)") auto

declare decimal.simps [simp del]

definition String_nat :: "nat \<Rightarrow> jsstring" where
  "String_nat n = js (decimal n)"

text \<open>
  The message of the error a send function throws for a POST that is not ok:
  \<^verbatim>\<open>`wechat: json_bot <what> failed status=${String(result.status ?? "")} err=${String(result.error ?? "")}`\<close>
\<close>

definition failure_message :: "jsstring \<Rightarrow> post_result \<Rightarrow> jsstring" where
  "failure_message what result =
     js ''wechat: json_bot '' @ what @ js '' failed status=''
       @ (case status result of None \<Rightarrow> [] | Some st \<Rightarrow> String_nat st)
       @ js '' err=''
       @ (case error result of None \<Rightarrow> [] | Some e \<Rightarrow> e)"

record send_result =
  channel :: jsstring
  messageId :: jsstring
  chatId :: jsstring

text \<open>
  The send functions take the network, the reading of the clock (\<^verbatim>\<open>Date.now()\<close>) and the
  arguments of the source; they return the result or the error thrown, and the calls
  issued, in order.
\<close>

definition sendText ::
  "network \<Rightarrow> nat \<Rightarrow> OpenClawConfig \<Rightarrow> jsstring \<Rightarrow> jsstring
     \<Rightarrow> (js_error + send_result) \<times> fetch_call list" where
  "sendText net now cfg to text =
     (let account = resolveWechatAccount cfg (Some DEFAULT_ACCOUNT_ID) in
      case normalizeBaseUrl (jsonBotBaseUrl (config account)) of
        None \<Rightarrow> (Inl (Error (js ''wechat: missing channels.wechat.jsonBotBaseUrl'')), [])
      | Some baseUrl \<Rightarrow>
          if baseUrl = []
          then (Inl (Error (js ''wechat: missing channels.wechat.jsonBotBaseUrl'')), [])
          else
            let sessionName = normalizeWechatTarget to;
                params = \<lparr>post_url = baseUrl @ js ''/reply'',
                          post_payload = \<lparr>session_name = sessionName, content = text,
                                      type = js ''text''\<rparr>,
                          timeoutMs = 5000\<rparr>;
                result = postJson net [] params
            in if \<not> ok result
               then (Inl (Error (failure_message (js ''/reply'') result)), [fetch_call_of params])
               else (Inr \<lparr>channel = js ''wechat'', messageId = js ''wechat:'' @ String_nat now,
                          chatId = sessionName\<rparr>,
                     [fetch_call_of params]))"

text \<open>\<^verbatim>\<open>String(mediaUrl)\<close> for an optional string.\<close>

definition String_optional :: "jsstring option \<Rightarrow> jsstring" where
  "String_optional v = (case v of None \<Rightarrow> js ''undefined'' | Some s \<Rightarrow> s)"

definition sendMedia ::
  "network \<Rightarrow> nat \<Rightarrow> OpenClawConfig \<Rightarrow> jsstring \<Rightarrow> jsstring option \<Rightarrow> jsstring option
     \<Rightarrow> (js_error + send_result) \<times> fetch_call list" where
  "sendMedia net now cfg to text mediaUrl =
     (let account = resolveWechatAccount cfg (Some DEFAULT_ACCOUNT_ID) in
      case normalizeBaseUrl (jsonBotBaseUrl (config account)) of
        None \<Rightarrow> (Inl (Error (js ''wechat: missing channels.wechat.jsonBotBaseUrl'')), [])
      | Some baseUrl \<Rightarrow>
          if baseUrl = []
          then (Inl (Error (js ''wechat: missing channels.wechat.jsonBotBaseUrl'')), [])
          else
            let sessionName = normalizeWechatTarget to;
                caption = trim (case text of None \<Rightarrow> [] | Some t \<Rightarrow> t);
                captionParams = \<lparr>post_url = baseUrl @ js ''/reply'',
                          post_payload = \<lparr>session_name = sessionName, content = caption,
                                      type = js ''text''\<rparr>,
                          timeoutMs = 5000\<rparr>;
                fileParams = \<lparr>post_url = baseUrl @ js ''/reply'',
                          post_payload = \<lparr>session_name = sessionName,
                                      content = String_optional mediaUrl,
                                      type = js ''file''\<rparr>,
                          timeoutMs = 15000\<rparr>;
                sent = (if caption \<noteq> [] then [fetch_call_of captionParams] else [])
            in if caption \<noteq> [] \<and> \<not> ok (postJson net [] captionParams)
               then (Inl (Error (failure_message (js ''/reply caption'')
                                   (postJson net [] captionParams))), sent)
               else
                 let fileResult = postJson net sent fileParams
                 in if \<not> ok fileResult
                    then (Inl (Error (failure_message (js ''/reply file'') fileResult)),
                          sent @ [fetch_call_of fileParams])
                    else (Inr \<lparr>channel = js ''wechat'', messageId = js ''wechat:'' @ String_nat now,
                               chatId = sessionName\<rparr>,
                          sent @ [fetch_call_of fileParams]))"

text \<open>The value of \<^verbatim>\<open>channels.wechat.jsonBotBaseUrl\<close>, when the configuration has one.\<close>

definition configured_jsonBotBaseUrl :: "OpenClawConfig \<Rightarrow> jsstring option" where
  "configured_jsonBotBaseUrl cfg =
     jsonBotBaseUrl (config (resolveWechatAccount cfg (Some DEFAULT_ACCOUNT_ID)))"

text \<open>The key is absent, or its value trims to the empty string.\<close>

definition baseUrl_missing :: "OpenClawConfig \<Rightarrow> bool" where
  "baseUrl_missing cfg =
     (case configured_jsonBotBaseUrl cfg of None \<Rightarrow> True | Some raw \<Rightarrow> trim raw = [])"

text \<open>\<open>isConfigured\<close> of the plugin's \<open>config\<close> section: the base URL trims to a non-empty string.\<close>

definition isConfigured :: "ResolvedWechatJsonBotAccount \<Rightarrow> bool" where
  "isConfigured account =
     (case jsonBotBaseUrl (config account) of None \<Rightarrow> False | Some u \<Rightarrow> trim u \<noteq> [])"

section \<open>The runtime holder (runtime.ts)\<close>

record inbound_params =
  param_cfg :: OpenClawConfig
  param_sender :: jsstring
  param_text :: jsstring
  param_timestampMs :: "int option"

text \<open>
  A reply payload as the host hands it to the delivery callback: an optional text, an
  optional array of media URLs and the optional single URL of older hosts.
\<close>

record ReplyPayload =
  reply_text :: "jsstring option"
  reply_mediaUrls :: "jsstring list option"
  reply_mediaUrl :: "jsstring option"

text \<open>
  What the host's dispatcher does with the two callbacks it is given: it delivers a
  payload, or reports an error of some kind.
\<close>

datatype dispatch_call = Deliver ReplyPayload | OnError js_error jsstring

text \<open>
  The host runtime as the plugin uses it. \<open>loadConfig\<close> is the configuration it returns;
  its logger is total and its entries are the \<open>ErrorLogged\<close> events below.
  \<open>resolveAgentRoute\<close> gives the account id of the route or the exception thrown.
  \<open>buildContext\<close> stands for the host calls that follow it up to the account lookup
  (store path, envelope options, previous timestamp, envelope, inbound context, and the
  call that starts the session update) and tells whether one of them throws.
  \<open>recordSessionMetaFromInbound\<close> tells whether the promise of the session update rejects.
  \<open>dispatchReply\<close> (the host's \<^verbatim>\<open>dispatchReplyWithBufferedBlockDispatcher\<close>) gives the calls
  the dispatcher makes to the two callbacks, each awaited before the next, and the
  exception it ends with, if any.
\<close>

record PluginRuntime =
  loadConfig :: OpenClawConfig
  resolveAgentRoute :: "inbound_params \<Rightarrow> js_error + jsstring"
  buildContext :: "inbound_params \<Rightarrow> js_error option"
  recordSessionMetaFromInbound :: "inbound_params \<Rightarrow> js_error option"
  dispatchReply :: "inbound_params \<Rightarrow> dispatch_call list \<times> js_error option"

definition getWechatRuntime :: "PluginRuntime option \<Rightarrow> js_error + PluginRuntime" where
  "getWechatRuntime slot =
     (case slot of
        None \<Rightarrow> Inl (Error (js ''WeChat runtime not initialized''))
      | Some r \<Rightarrow> Inr r)"

definition setWechatRuntime :: "PluginRuntime \<Rightarrow> PluginRuntime option" where
  "setWechatRuntime next_rt = Some next_rt"

section \<open>The webhook handler (webhook.ts)\<close>

text \<open>
  The value of a request header in \<^verbatim>\<open>req.headers\<close>: \<^verbatim>\<open>undefined\<close>, a string, or an array of
  strings.
\<close>

datatype header = Absent | Single jsstring | Multiple "jsstring list"

text \<open>
  The request as the handler reads it: method, URL, the headers by their lower-case names,
  and the body as the chunks the stream yields (buffers, lists of bytes), followed by the
  error the stream raises when it fails.
\<close>

record IncomingMessage =
  http_method :: "jsstring option"
  url :: "jsstring option"
  headers :: "jsstring \<Rightarrow> header"
  body_chunks :: "string list"
  body_failure :: "js_error option"

text \<open>
  The response: \<open>body_sent\<close> is what \<^verbatim>\<open>res.end\<close> wrote, and \<open>headersSent\<close> tells whether the
  response has been started.
\<close>

datatype header_field = Text jsstring | Number nat

record ServerResponse =
  headersSent :: bool
  statusCode :: nat
  header_fields :: "jsstring \<rightharpoonup> header_field"
  body_sent :: "jsstring option"

text \<open>
  What a call of the handler does besides returning, in the order in which it happens: a
  response is sent, \<open>handleInbound\<close> is started, a POST is issued to the gateway, an error
  is logged.
\<close>

datatype event =
    ResponseSent nat jsstring
  | InboundStarted inbound_params
  | Posted fetch_call
  | ErrorLogged jsstring

text \<open>\<^verbatim>\<open>Array.isArray(h) ? h[0] : h\<close>\<close>

fun first_value :: "header \<Rightarrow> jsstring option" where
  "first_value Absent = None"
| "first_value (Single v) = Some v"
| "first_value (Multiple []) = None"
| "first_value (Multiple (v # vs)) = Some v"

definition parseBearerToken :: "header \<Rightarrow> jsstring option" where
  "parseBearerToken headerValue =
     (case first_value headerValue of
        None \<Rightarrow> None
      | Some v \<Rightarrow>
          if v = [] then None
          else let trimmed = trim v in
            if trimmed = [] then None
            else let lower = toLowerCase trimmed in
              if \<not> startsWith lower (js ''bearer '') then None
              else let token = trim (drop (length (js ''bearer '')) trimmed) in
                if token = [] then None else Some token)"

text \<open>
  The loop of \<open>readJsonBody\<close> over the chunks, with the running size and the chunks kept so
  far.
\<close>

fun read_chunks :: "string list \<Rightarrow> nat \<Rightarrow> nat \<Rightarrow> string list \<Rightarrow> js_error + string list" where
  "read_chunks [] maxBytes size' chunks = Inr chunks"
| "read_chunks (buf # rest) maxBytes size' chunks =
     (if size' + length buf > maxBytes then Inl (Error (js ''payload too large''))
      else read_chunks rest maxBytes (size' + length buf) (chunks @ [buf]))"

definition readJsonBody ::
  "'n js_builtins \<Rightarrow> IncomingMessage \<Rightarrow> nat \<Rightarrow> js_error + 'n json" where
  "readJsonBody js_env req maxBytes =
     (case read_chunks (body_chunks req) maxBytes 0 [] of
        Inl e \<Rightarrow> Inl e
      | Inr chunks \<Rightarrow>
          (case body_failure req of
             Some e \<Rightarrow> Inl e
           | None \<Rightarrow>
               let text = trim (Buffer_toString js_env (concat chunks))
               in if text = [] then Inr (JObj []) else JSON_parse js_env text))"

text \<open>
  \<open>respondJson\<close> leaves a started response as it is; otherwise it sets the status and the
  two headers and ends the response with the JSON text of the payload.
\<close>

definition respondJson ::
  "'n js_builtins \<Rightarrow> ServerResponse \<Rightarrow> nat \<Rightarrow> 'n json \<Rightarrow> ServerResponse \<times> event list" where
  "respondJson js_env res code payload =
     (if headersSent res then (res, [])
      else let body = JSON_stringify js_env payload
        in (res\<lparr>statusCode := code,
                 header_fields := (header_fields res)
                   (js ''Content-Type'' \<mapsto> Text (js ''application/json; charset=utf-8''),
                    js ''Content-Length'' \<mapsto> Number (byteLength body)),
                 body_sent := Some body,
                 headersSent := True\<rparr>,
            [ResponseSent code body]))"

subsection \<open>The inbound pipeline\<close>

text \<open>
  One POST of the delivery callback: the call is issued; when its result is not ok the
  failure is logged and nothing is thrown. The calls made so far are passed along.
\<close>

definition post_and_log ::
  "network \<Rightarrow> jsstring \<Rightarrow> fetch_call list \<Rightarrow> post_params \<Rightarrow> event list \<times> fetch_call list" where
  "post_and_log net what earlier params =
     (let result = postJson net earlier params
      in (Posted (fetch_call_of params)
            # (if \<not> ok result then [ErrorLogged (failure_message what result)] else []),
          earlier @ [fetch_call_of params]))"

text \<open>The loop of the delivery callback over the media URLs.\<close>

fun deliver_media ::
  "network \<Rightarrow> jsstring \<Rightarrow> jsstring \<Rightarrow> fetch_call list \<Rightarrow> jsstring list
     \<Rightarrow> event list \<times> fetch_call list" where
  "deliver_media net baseUrl sender earlier [] = ([], earlier)"
| "deliver_media net baseUrl sender earlier (mediaUrl # rest) =
     (case post_and_log net (js ''/reply file'') earlier
             \<lparr>post_url = baseUrl @ js ''/reply'',
              post_payload = \<lparr>session_name = sender, content = mediaUrl, type = js ''file''\<rparr>,
              timeoutMs = 15000\<rparr> of
        (evs, earlier') \<Rightarrow>
          (case deliver_media net baseUrl sender earlier' rest of
             (evs', earlier'') \<Rightarrow> (evs @ evs', earlier'')))"

text \<open>
  The delivery callback \<open>deliver\<close>: the trimmed text first when it is not empty, then every
  media URL that is not empty once trimmed.
\<close>

definition deliver ::
  "network \<Rightarrow> jsstring \<Rightarrow> jsstring \<Rightarrow> fetch_call list \<Rightarrow> ReplyPayload
     \<Rightarrow> event list \<times> fetch_call list" where
  "deliver net baseUrl sender earlier reply =
     (let text = trim (case reply_text reply of None \<Rightarrow> [] | Some t \<Rightarrow> t);
          mediaUrlsRaw =
            (case reply_mediaUrls reply of
               Some urls \<Rightarrow> urls
             | None \<Rightarrow>
                 (case reply_mediaUrl reply of
                    None \<Rightarrow> []
                  | Some u \<Rightarrow> if u \<noteq> [] then [u] else []));
          mediaUrls = filter (\<lambda>u. u \<noteq> []) (map trim mediaUrlsRaw)
      in case (if text \<noteq> []
               then post_and_log net (js ''/reply'') earlier
                      \<lparr>post_url = baseUrl @ js ''/reply'',
                       post_payload = \<lparr>session_name = sender, content = text,
                                        type = js ''text''\<rparr>,
                       timeoutMs = 5000\<rparr>
               else ([], earlier)) of
           (evs, earlier') \<Rightarrow>
             (case deliver_media net baseUrl sender earlier' mediaUrls of
                (evs', earlier'') \<Rightarrow> (evs @ evs', earlier'')))"

text \<open>
  The calls of the dispatcher, one after the other: a delivery runs \<open>deliver\<close>, an error
  report runs \<open>onError\<close>, which logs it.
\<close>

fun run_dispatch ::
  "network \<Rightarrow> jsstring \<Rightarrow> jsstring \<Rightarrow> fetch_call list \<Rightarrow> dispatch_call list \<Rightarrow> event list" where
  "run_dispatch net baseUrl sender earlier [] = []"
| "run_dispatch net baseUrl sender earlier (Deliver reply # rest) =
     (case deliver net baseUrl sender earlier reply of
        (evs, earlier') \<Rightarrow> evs @ run_dispatch net baseUrl sender earlier' rest)"
| "run_dispatch net baseUrl sender earlier (OnError err kind # rest) =
     ErrorLogged (js ''wechat: '' @ kind @ js '' reply failed: '' @ String_error err)
       # run_dispatch net baseUrl sender earlier rest"

text \<open>
  \<open>handleInbound\<close> receives the runtime and the parameters, never the response. It returns
  the events of its run and the exception it ends with, if any. The entry for a failed
  session update is written when that promise rejects, after the synchronous part of the
  function; it is listed after the entries of the run, its place among those of the
  dispatcher being the host's timing.
\<close>

definition handleInbound ::
  "network \<Rightarrow> PluginRuntime \<Rightarrow> inbound_params \<Rightarrow> event list \<times> js_error option" where
  "handleInbound net runtime params =
     (case resolveAgentRoute runtime params of
        Inl e \<Rightarrow> ([], Some e)
      | Inr route_accountId \<Rightarrow>
          (case buildContext runtime params of
             Some e \<Rightarrow> ([], Some e)
           | None \<Rightarrow>
               let session_log =
                     (case recordSessionMetaFromInbound runtime params of
                        None \<Rightarrow> []
                      | Some err \<Rightarrow>
                          [ErrorLogged (js ''wechat: failed updating session meta: ''
                             @ String_error err)]);
                   account = resolveWechatAccount (param_cfg params) (Some route_accountId)
               in case normalizeBaseUrl (jsonBotBaseUrl (config account)) of
                    None \<Rightarrow>
                      (ErrorLogged (js ''wechat: missing channels.wechat.jsonBotBaseUrl'')
                         # session_log, None)
                  | Some jsonBotBaseUrl' \<Rightarrow>
                      if jsonBotBaseUrl' = []
                      then (ErrorLogged (js ''wechat: missing channels.wechat.jsonBotBaseUrl'')
                              # session_log, None)
                      else (case dispatchReply runtime params of
                              (calls, thrown) \<Rightarrow>
                                (run_dispatch net jsonBotBaseUrl' (param_sender params) [] calls
                                   @ session_log, thrown))))"

subsection \<open>The handler\<close>

text \<open>\<^verbatim>\<open>value.split("?")[0]\<close> is the text before the first question mark.\<close>

definition shouldHandlePath :: "jsstring option \<Rightarrow> bool" where
  "shouldHandlePath u =
     (let v = trim (case u of None \<Rightarrow> [] | Some s \<Rightarrow> s)
      in if v = [] then False
         else takeWhile (\<lambda>c. c \<noteq> 0x3F) v = js ''/webhook/wechat'')"

text \<open>
  A property read \<^verbatim>\<open>payload.k\<close> on the parsed body: it throws on \<^verbatim>\<open>null\<close>, finds an own
  property of an object, and is \<^verbatim>\<open>undefined\<close> on every other value.
\<close>

definition get_property :: "'n json \<Rightarrow> jsstring \<Rightarrow> js_error + 'n json option" where
  "get_property v k =
     (case v of
        JNull \<Rightarrow>
          Inl (TypeError (js ''Cannot read properties of null (reading '' @ [0x27] @ k
                 @ [0x27] @ js '')''))
      | JObj props \<Rightarrow> Inr (map_of props k)
      | _ \<Rightarrow> Inr None)"

text \<open>\<^verbatim>\<open>String(payload.k ?? "").trim()\<close>\<close>

definition trimmed_field :: "'n js_builtins \<Rightarrow> 'n json \<Rightarrow> jsstring \<Rightarrow> js_error + jsstring" where
  "trimmed_field js_env payload k =
     (case get_property payload k of
        Inl e \<Rightarrow> Inl e
      | Inr None \<Rightarrow> Inr (trim [])
      | Inr (Some JNull) \<Rightarrow> Inr (trim [])
      | Inr (Some v) \<Rightarrow> (case ToString js_env v of Inl e \<Rightarrow> Inl e | Inr s \<Rightarrow> Inr (trim s)))"

definition payload_timestampMs :: "'n js_builtins \<Rightarrow> 'n json \<Rightarrow> int option" where
  "payload_timestampMs js_env payload =
     (case get_property payload (js ''timestamp'') of
        Inr (Some (JNum n)) \<Rightarrow>
          if Number_isFinite js_env n then Some (Math_round_x1000 js_env n) else None
      | _ \<Rightarrow> None)"

text \<open>
  The token the request presents: the bearer token when the Authorization header has one,
  otherwise the first value of the \<^verbatim>\<open>x-openclaw-token\<close> header.
\<close>

definition presented_token :: "IncomingMessage \<Rightarrow> jsstring option" where
  "presented_token req =
     (case parseBearerToken (headers req (js ''authorization'')) of
        Some t \<Rightarrow> Some t
      | None \<Rightarrow> first_value (headers req (js ''x-openclaw-token'')))"

text \<open>\<^verbatim>\<open>!token || String(token).trim() !== expectedToken\<close>\<close>

definition token_rejected :: "jsstring option \<Rightarrow> jsstring \<Rightarrow> bool" where
  "token_rejected token expectedToken =
     (case token of None \<Rightarrow> True | Some t \<Rightarrow> t = [] \<or> trim t \<noteq> expectedToken)"

text \<open>
  The handler from the body-reading stage on, where a request arrives once the token check
  has let it through.
\<close>

definition handle_body ::
  "'n js_builtins \<Rightarrow> network \<Rightarrow> PluginRuntime \<Rightarrow> OpenClawConfig \<Rightarrow> IncomingMessage
     \<Rightarrow> ServerResponse \<Rightarrow> (js_error + bool) \<times> ServerResponse \<times> event list" where
  "handle_body js_env net runtime cfg req res =
     (case readJsonBody js_env req (256 * 1024) of
        Inl err \<Rightarrow>
          (case respondJson js_env res 400
                  (JObj [(js ''ok'', JBool False), (js ''error'', JStr (String_error err))]) of
             (res', evs) \<Rightarrow> (Inr True, res', evs))
      | Inr payload \<Rightarrow>
          (case trimmed_field js_env payload (js ''sender'') of
             Inl e \<Rightarrow> (Inl e, res, [])
           | Inr sender \<Rightarrow>
               (case trimmed_field js_env payload (js ''message'') of
                  Inl e \<Rightarrow> (Inl e, res, [])
                | Inr text \<Rightarrow>
                    if sender = [] \<or> text = []
                    then (case respondJson js_env res 400
                            (JObj [(js ''ok'', JBool False),
                                   (js ''error'', JStr (js ''missing sender or message''))]) of
                            (res', evs) \<Rightarrow> (Inr True, res', evs))
                    else (case respondJson js_env res 202 (JObj [(js ''ok'', JBool True)]) of
                            (res', evs) \<Rightarrow>
                              let params = \<lparr>param_cfg = cfg, param_sender = sender,
                                    param_text = text,
                                    param_timestampMs = payload_timestampMs js_env payload\<rparr>
                              in (case handleInbound net runtime params of
                                    (inbound_events, thrown) \<Rightarrow>
                                      (Inr True, res',
                                       evs @ [InboundStarted params] @ inbound_events @
                                       (case thrown of
                                          None \<Rightarrow> []
                                        | Some err \<Rightarrow>
                                            [ErrorLogged
                                               (js ''wechat: inbound processing failed: ''
                                                  @ String_error err)])))))))"

text \<open>
  The handler takes the built-ins, the network, the content of the runtime holder, the
  request and the response; it returns the value or the exception of its promise, the
  response as it leaves it, and the events.
\<close>

definition handleWechatWebhookRequest ::
  "'n js_builtins \<Rightarrow> network \<Rightarrow> PluginRuntime option \<Rightarrow> IncomingMessage \<Rightarrow> ServerResponse
     \<Rightarrow> (js_error + bool) \<times> ServerResponse \<times> event list" where
  "handleWechatWebhookRequest js_env net slot req res =
     (if toUpperCase (case http_method req of None \<Rightarrow> [] | Some m \<Rightarrow> m) \<noteq> js ''POST''
      then (Inr False, res, [])
      else if \<not> shouldHandlePath (url req) then (Inr False, res, [])
      else case getWechatRuntime slot of
        Inl e \<Rightarrow> (Inl e, res, [])
      | Inr runtime \<Rightarrow>
          let cfg = loadConfig runtime;
              account = resolveWechatAccount cfg (Some DEFAULT_ACCOUNT_ID);
              expectedToken =
                trim (case inboundToken (config account) of None \<Rightarrow> [] | Some t \<Rightarrow> t)
          in if expectedToken \<noteq> [] \<and> token_rejected (presented_token req) expectedToken
             then (case respondJson js_env res 401
                          (JObj [(js ''ok'', JBool False),
                                 (js ''error'', JStr (js ''unauthorized''))]) of
                     (res', evs) \<Rightarrow> (Inr True, res', evs))
             else handle_body js_env net runtime cfg req res)"

section \<open>Vocabulary of the statements\<close>

text \<open>A POST to the webhook path: what the handler's first two tests let through.\<close>

definition webhook_post :: "IncomingMessage \<Rightarrow> bool" where
  "webhook_post req =
     (toUpperCase (case http_method req of None \<Rightarrow> [] | Some m \<Rightarrow> m) = js ''POST''
      \<and> shouldHandlePath (url req))"

text \<open>The inbound token of the default account, as configured.\<close>

definition configured_inboundToken :: "OpenClawConfig \<Rightarrow> jsstring option" where
  "configured_inboundToken cfg =
     inboundToken (config (resolveWechatAccount cfg (Some DEFAULT_ACCOUNT_ID)))"

text \<open>A header value carries the token \<open>tok\<close> when its trimmed text is \<open>tok\<close>.\<close>

definition carries :: "jsstring option \<Rightarrow> jsstring \<Rightarrow> bool" where
  "carries presented tok = (case presented of None \<Rightarrow> False | Some v \<Rightarrow> trim v = tok)"

text \<open>The request passes the handler's token check under configuration \<open>cfg\<close>.\<close>

definition passes_token_check :: "OpenClawConfig \<Rightarrow> IncomingMessage \<Rightarrow> bool" where
  "passes_token_check cfg req =
     (let expectedToken =
            trim (case configured_inboundToken cfg of None \<Rightarrow> [] | Some t \<Rightarrow> t)
      in \<not> (expectedToken \<noteq> [] \<and> token_rejected (presented_token req) expectedToken))"

text \<open>The response \<open>respondJson\<close> leaves on a response that had not been started.\<close>

definition json_response ::
  "'n js_builtins \<Rightarrow> ServerResponse \<Rightarrow> nat \<Rightarrow> 'n json \<Rightarrow> ServerResponse" where
  "json_response js_env res code payload =
     res\<lparr>statusCode := code,
         header_fields := (header_fields res)
           (js ''Content-Type'' \<mapsto> Text (js ''application/json; charset=utf-8''),
            js ''Content-Length'' \<mapsto> Number (byteLength (JSON_stringify js_env payload))),
         body_sent := Some (JSON_stringify js_env payload),
         headersSent := True\<rparr>"

text \<open>The configuration with the inbound token of \<^verbatim>\<open>channels.wechat\<close> removed.\<close>

definition clear_inboundToken :: "OpenClawConfig \<Rightarrow> OpenClawConfig" where
  "clear_inboundToken cfg =
     (case channels cfg of
        None \<Rightarrow> cfg
      | Some chs \<Rightarrow>
          (case chs (js ''wechat'') of
             None \<Rightarrow> cfg
           | Some acc \<Rightarrow>
               cfg\<lparr>channels := Some (chs(js ''wechat'' \<mapsto> acc\<lparr>inboundToken := None\<rparr>))\<rparr>))"

text \<open>The length of the request body in bytes.\<close>

definition body_size :: "IncomingMessage \<Rightarrow> nat" where
  "body_size req = sum_list (map length (body_chunks req))"


section \<open>Onboarding: configuration objects in a store (channel.ts)\<close>

text \<open>
  \<open>applyWechatConfig\<close> and \<open>disable\<close> treat the configuration as plain objects
  (\<^verbatim>\<open>Record<string, unknown>\<close>) and build new ones with object literals and spreads. To
  tell a new object from a changed one, objects live in a store: a reference is an index
  into it, an object is the map of its own enumerable properties, and creating an object
  appends it. The order of an object's keys is not recorded.
\<close>

datatype 'n val =
    VUndefined | VNull | VBool bool | VNum 'n | VStr jsstring | VRef nat

type_synonym 'n obj = "jsstring \<rightharpoonup> 'n val"

type_synonym 'n store = "'n obj list"

definition nullish :: "'n val \<Rightarrow> bool" where
  "nullish v = (v = VUndefined \<or> v = VNull)"

definition object_at :: "'n store \<Rightarrow> nat \<Rightarrow> 'n obj" where
  "object_at store r = (if r < length store then store ! r else Map.empty)"

text \<open>
  What a spread \<^verbatim>\<open>...v\<close> copies into an object literal: the own enumerable properties of an
  object, the indexed characters of a string, nothing for any other value.
\<close>

definition own_properties :: "'n store \<Rightarrow> 'n val \<Rightarrow> 'n obj" where
  "own_properties store v =
     (case v of
        VRef r \<Rightarrow> object_at store r
      | VStr s \<Rightarrow> map_of (map (\<lambda>i. (String_nat i, VStr [s ! i])) [0..<length s])
      | _ \<Rightarrow> Map.empty)"

text \<open>
  The reads \<^verbatim>\<open>cfg.channels\<close> and \<^verbatim>\<open>channels["wechat"]\<close>: an own property of an object,
  \<^verbatim>\<open>undefined\<close> when the object has none of that name or the value is a primitive.
\<close>

definition read_property :: "'n store \<Rightarrow> 'n val \<Rightarrow> jsstring \<Rightarrow> 'n val" where
  "read_property store v k =
     (case v of
        VRef r \<Rightarrow> (case object_at store r k of Some x \<Rightarrow> x | None \<Rightarrow> VUndefined)
      | _ \<Rightarrow> VUndefined)"

definition alloc :: "'n store \<Rightarrow> 'n obj \<Rightarrow> 'n val \<times> 'n store" where
  "alloc store props = (VRef (length store), store @ [props])"

text \<open>\<^verbatim>\<open>v ?? {}\<close>\<close>

definition or_empty_object :: "'n store \<Rightarrow> 'n val \<Rightarrow> 'n val \<times> 'n store" where
  "or_empty_object store v = (if nullish v then alloc store Map.empty else (v, store))"

definition applyWechatConfig :: "'n store \<Rightarrow> nat \<Rightarrow> nat \<Rightarrow> 'n val \<times> 'n store" where
  "applyWechatConfig store cfg patch =
     (case or_empty_object store (read_property store (VRef cfg) (js ''channels'')) of
        (chans, s1) \<Rightarrow>
     (case or_empty_object s1 (read_property s1 chans (js ''wechat'')) of
        (current, s2) \<Rightarrow>
     (case alloc s2 ((own_properties s2 current ++ own_properties s2 (VRef patch))
                       (js ''enabled'' \<mapsto> VBool True)) of
        (wechat, s3) \<Rightarrow>
     (case alloc s3 ((own_properties s3 chans)(js ''wechat'' \<mapsto> wechat)) of
        (chans', s4) \<Rightarrow>
     alloc s4 ((own_properties s4 (VRef cfg))(js ''channels'' \<mapsto> chans'))))))"

definition disable :: "'n store \<Rightarrow> nat \<Rightarrow> 'n val \<times> 'n store" where
  "disable store cfg =
     (case or_empty_object store (read_property store (VRef cfg) (js ''channels'')) of
        (chans, s1) \<Rightarrow>
     (case or_empty_object s1 (read_property s1 chans (js ''wechat'')) of
        (current, s2) \<Rightarrow>
     (case alloc s2 ((own_properties s2 current)(js ''enabled'' \<mapsto> VBool False)) of
        (wechat, s3) \<Rightarrow>
     (case alloc s3 ((own_properties s3 chans)(js ''wechat'' \<mapsto> wechat)) of
        (chans', s4) \<Rightarrow>
     alloc s4 ((own_properties s4 (VRef cfg))(js ''channels'' \<mapsto> chans'))))))"

definition optional_string :: "jsstring option \<Rightarrow> 'n val" where
  "optional_string v = (case v of None \<Rightarrow> VUndefined | Some s \<Rightarrow> VStr s)"

text \<open>
  \<open>configure\<close>, given the two answers of the prompter: the base URL (a string) and the
  inbound token (a string, or nothing). It returns the new configuration with the account
  id, and the store.
\<close>

definition configure ::
  "'n store \<Rightarrow> nat \<Rightarrow> jsstring \<Rightarrow> jsstring option \<Rightarrow> ('n val \<times> jsstring) \<times> 'n store" where
  "configure store cfg nextBaseUrl nextInboundToken =
     (let baseUrl = normalizeBaseUrl (Some nextBaseUrl);
          trimmed = trim (case nextInboundToken of None \<Rightarrow> [] | Some t \<Rightarrow> t);
          inboundToken = (if trimmed = [] then None else Some trimmed)
      in case alloc store [js ''jsonBotBaseUrl'' \<mapsto> optional_string baseUrl,
                           js ''inboundToken'' \<mapsto> optional_string inboundToken] of
           (patch, s1) \<Rightarrow>
             (case applyWechatConfig s1 cfg (length store) of
                (next_cfg, s2) \<Rightarrow> ((next_cfg, DEFAULT_ACCOUNT_ID), s2)))"

text \<open>
  A value that is an object of the store, \<^verbatim>\<open>undefined\<close> or \<^verbatim>\<open>null\<close>: what the source's
  casts take \<^verbatim>\<open>cfg.channels\<close> and \<^verbatim>\<open>channels["wechat"]\<close> to be.
\<close>

definition record_or_nullish :: "'n store \<Rightarrow> 'n val \<Rightarrow> bool" where
  "record_or_nullish store v =
     (case v of VUndefined \<Rightarrow> True | VNull \<Rightarrow> True | VRef r \<Rightarrow> r < length store | _ \<Rightarrow> False)"

text \<open>A configuration object of the store whose channel entries have those types.\<close>

definition config_object :: "'n store \<Rightarrow> nat \<Rightarrow> bool" where
  "config_object store cfg =
     (cfg < length store
      \<and> record_or_nullish store (read_property store (VRef cfg) (js ''channels''))
      \<and> record_or_nullish store
           (read_property store (read_property store (VRef cfg) (js ''channels'')) (js ''wechat'')))"

text \<open>The result is an object created by the call: a reference beyond the input store.\<close>

definition created :: "'n store \<Rightarrow> 'n store \<Rightarrow> 'n val \<Rightarrow> bool" where
  "created store store' v =
     (case v of VRef r \<Rightarrow> length store \<le> r \<and> r < length store' | _ \<Rightarrow> False)"

text \<open>
  What the onboarding operations promise about the configuration they return, for a
  function \<open>f\<close> from the old properties of \<^verbatim>\<open>channels.wechat\<close> to the new ones: no object
  of the input store is changed; the configuration, its \<open>channels\<close> and its \<open>wechat\<close> entry
  are objects created by the call; every top-level property but \<open>channels\<close> and every
  channel entry but \<open>wechat\<close> is as before; the properties of the \<open>wechat\<close> entry are \<open>f\<close> of
  the old ones.
\<close>

definition rebuilt ::
  "'n store \<Rightarrow> nat \<Rightarrow> 'n val \<times> 'n store \<Rightarrow> ('n obj \<Rightarrow> 'n obj) \<Rightarrow> bool" where
  "rebuilt store cfg result f =
     (let next_cfg = fst result; store' = snd result;
          chans = read_property store (VRef cfg) (js ''channels'');
          current = read_property store chans (js ''wechat'');
          chans' = read_property store' next_cfg (js ''channels'');
          wechat' = read_property store' chans' (js ''wechat'')
      in take (length store) store' = store
         \<and> created store store' next_cfg
         \<and> created store store' chans'
         \<and> created store store' wechat'
         \<and> (\<forall>k. k \<noteq> js ''channels'' \<longrightarrow> own_properties store' next_cfg k = object_at store cfg k)
         \<and> (\<forall>k. k \<noteq> js ''wechat'' \<longrightarrow> own_properties store' chans' k = own_properties store chans k)
         \<and> own_properties store' wechat' = f (own_properties store current))"

section \<open>A concrete environment\<close>

text \<open>
  Concrete built-ins, configurations, requests and gateways, at which the theorems below
  are instantiated. \<open>demo_stringify\<close> and \<open>demo_parse\<close> stand for \<^verbatim>\<open>JSON.stringify\<close> and
  \<^verbatim>\<open>JSON.parse\<close> on the few values used here; the bodies are ASCII text, which \<open>js\<close>
  decodes.
\<close>

definition quoted :: "jsstring \<Rightarrow> jsstring" where
  "quoted s = 0x22 # s @ [0x22]"

fun demo_member :: "jsstring \<times> int json \<Rightarrow> jsstring" where
  "demo_member (k, JBool b) = quoted k @ js '':'' @ (if b then js ''true'' else js ''false'')"
| "demo_member (k, JStr s) = quoted k @ js '':'' @ quoted s"
| "demo_member (k, v) = quoted k @ js '':null''"

definition demo_stringify :: "int json \<Rightarrow> jsstring" where
  "demo_stringify v =
     (case v of
        JObj ms \<Rightarrow> js ''{'' @ join_with (js '','') (map demo_member ms) @ js ''}''
      | _ \<Rightarrow> js ''null'')"

text \<open>The bytes of \<^verbatim>\<open>{"sender":"Alice","message":"Hi","timestamp":1700000000}\<close>.\<close>

definition demo_body :: string where
  "demo_body = ''{'' @ [CHR 0x22] @ ''sender'' @ [CHR 0x22] @ '':'' @ [CHR 0x22] @ ''Alice''
     @ [CHR 0x22] @ '','' @ [CHR 0x22] @ ''message'' @ [CHR 0x22] @ '':'' @ [CHR 0x22] @ ''Hi''
     @ [CHR 0x22] @ '','' @ [CHR 0x22] @ ''timestamp'' @ [CHR 0x22] @ '':1700000000}''"

definition demo_parse :: "jsstring \<Rightarrow> js_error + int json" where
  "demo_parse s =
     (if s = js ''null'' then Inr JNull
      else if s = js demo_body
      then Inr (JObj [(js ''sender'', JStr (js ''Alice'')), (js ''message'', JStr (js ''Hi'')),
                      (js ''timestamp'', JNum 1700000000)])
      else Inl (SyntaxError (js ''Unexpected token'')))"

definition demo_js :: "int js_builtins" where
  "demo_js = \<lparr>JSON_parse = demo_parse, JSON_stringify = demo_stringify,
      Number_toString = (\<lambda>n. js ''0''), Number_isFinite = (\<lambda>n. True),
      Math_round_x1000 = (\<lambda>n. n * 1000), Buffer_toString = js\<rparr>"

text \<open>
  A configuration whose base URL is written with a no-break space before it and an
  ideographic space after it.
\<close>

definition demo_config :: "jsstring option \<Rightarrow> OpenClawConfig" where
  "demo_config tok =
     \<lparr>channels = Some [js ''wechat'' \<mapsto>
        \<lparr>enabled = None, name = None, jsonBotBaseUrl = Some (0xA0 # js ''http://h/'' @ [0x3000]),
         inboundToken = tok\<rparr>]\<rparr>"

text \<open>
  A host whose route resolves and whose dispatcher delivers one reply (a text and two
  media URLs, the second blank), reports an error of a block, and then throws.
\<close>

definition demo_reply :: ReplyPayload where
  "demo_reply =
     \<lparr>reply_text = Some (0x3000 # js ''Hello ''),
      reply_mediaUrls = Some [js ''http://m/a.png'', [0x20, 0xA0]],
      reply_mediaUrl = None\<rparr>"

definition demo_runtime :: "jsstring option \<Rightarrow> PluginRuntime" where
  "demo_runtime tok =
     \<lparr>loadConfig = demo_config tok,
      resolveAgentRoute = (\<lambda>p. Inr (js ''default'')),
      buildContext = (\<lambda>p. None),
      recordSessionMetaFromInbound = (\<lambda>p. None),
      dispatchReply = (\<lambda>p. ([Deliver demo_reply, OnError (Error (js ''boom'')) (js ''block'')],
                              Some (Error (js ''agent failed''))))\<rparr>"

definition demo_request :: "header \<Rightarrow> string list \<Rightarrow> IncomingMessage" where
  "demo_request auth chunks =
     \<lparr>http_method = Some (js ''POST''), url = Some (js ''/webhook/wechat?src=bot''),
      headers = (\<lambda>h. if h = js ''authorization'' then auth else Absent),
      body_chunks = chunks, body_failure = None\<rparr>"

definition fresh_response :: ServerResponse where
  "fresh_response =
     \<lparr>headersSent = False, statusCode = 200, header_fields = Map.empty, body_sent = None\<rparr>"

definition big_chunk :: string where
  "big_chunk = replicate 200000 (CHR ''x'')"

definition null_body_request :: IncomingMessage where
  "null_body_request = demo_request Absent [''null'']"

text \<open>A configuration whose base URL is a single slash.\<close>

definition slash_config :: OpenClawConfig where
  "slash_config =
     \<lparr>channels = Some [js ''wechat'' \<mapsto>
        \<lparr>enabled = None, name = None, jsonBotBaseUrl = Some (js ''/''),
         inboundToken = None\<rparr>]\<rparr>"

text \<open>A gateway that accepts text messages and fails on files.\<close>

definition demo_net :: network where
  "demo_net earlier call =
     (if type (call_body call) = js ''text''
      then Responded 200 (Some (js ''ok'')) (js ''OK'')
      else Responded 502 (Some (js ''upstream down'')) (js ''Bad Gateway''))"


text \<open>
  A store holding a configuration (object 0) with a session entry (3) and two channels (1):
  \<open>wechat\<close> (2) and \<open>telegram\<close> (4); object 5 is a patch.
\<close>

definition demo_store :: "int store" where
  "demo_store =
     [[js ''channels'' \<mapsto> VRef 1, js ''session'' \<mapsto> VRef 3],
      [js ''wechat'' \<mapsto> VRef 2, js ''telegram'' \<mapsto> VRef 4],
      [js ''name'' \<mapsto> VStr (js ''bot''), js ''jsonBotBaseUrl'' \<mapsto> VStr (js ''http://old''),
       js ''enabled'' \<mapsto> VBool False],
      [js ''store'' \<mapsto> VStr (js ''/tmp/sessions'')],
      [js ''enabled'' \<mapsto> VBool True],
      [js ''jsonBotBaseUrl'' \<mapsto> VStr (js ''http://h''), js ''inboundToken'' \<mapsto> VUndefined]]"

section \<open>Facts about trimming and case folding\<close>

lemmas string_evals =
  js_def trim_def trimStart_def trimEnd_def is_ws_def toUpperCase_def toUpperCase_char_def
  toLowerCase_def toLowerCase_char_def upper_letters_def lower_letters_def startsWith_def

lemma js_eq_iff [simp]: "js a = js b \<longleftrightarrow> a = b"
  by (simp add: js_def inj_map_eq_map inj_on_def)

lemma js_eq_Nil [simp]: "js s = [] \<longleftrightarrow> s = []"
  by (simp add: js_def)

lemma js_append: "js (a @ b) = js a @ js b"
  by (simp add: js_def)

lemma length_js [simp]: "length (js s) = length s"
  by (simp add: js_def)

lemma trimStart_ws_append: "\<forall>c\<in>set w. is_ws c \<Longrightarrow> trimStart (w @ s) = trimStart s"
  by (simp add: trimStart_def dropWhile_append)

lemma trimEnd_append_ws: "\<forall>c\<in>set w. is_ws c \<Longrightarrow> trimEnd (s @ w) = trimEnd s"
  by (simp add: trimEnd_def dropWhile_append)

lemma trimEnd_nonws: "c \<in> set t \<Longrightarrow> \<not> is_ws c \<Longrightarrow> trimEnd (a @ t) = a @ trimEnd t"
  by (simp add: trimEnd_def dropWhile_append1)

lemma trimEnd_prefix: "p \<noteq> [] \<Longrightarrow> \<not> is_ws (last p) \<Longrightarrow> trimEnd (p @ s) = p @ trimEnd s"
  unfolding trimEnd_def
  by (cases p rule: rev_cases) (auto simp: dropWhile_append)

lemma trimStart_keep: "s \<noteq> [] \<Longrightarrow> \<not> is_ws (hd s) \<Longrightarrow> trimStart s = s"
  unfolding trimStart_def by (cases s) auto

lemma trimEnd_all_ws: "\<forall>c\<in>set s. is_ws c \<Longrightarrow> trimEnd s = []"
  by (simp add: trimEnd_def)

lemma trimEnd_idem: "trimEnd (trimEnd s) = trimEnd s"
proof -
  have "dropWhile is_ws (dropWhile is_ws (rev s)) = dropWhile is_ws (rev s)"
    by (rule dropWhile_idem)
  then show ?thesis by (simp add: trimEnd_def)
qed

lemma trim_commute: "trimStart (trimEnd s) = trimEnd (trimStart s)"
proof (cases "dropWhile is_ws s")
  case Nil
  then have all: "\<forall>c\<in>set s. is_ws c" by (simp add: dropWhile_eq_Nil_conv)
  then show ?thesis by (simp add: trimEnd_all_ws trimStart_def Nil)
next
  case (Cons x t)
  then have x: "\<not> is_ws x" by (metis hd_dropWhile list.distinct(1) list.sel(1))
  define a where "a = takeWhile is_ws s"
  have s: "s = a @ x # t" using Cons by (metis a_def takeWhile_dropWhile_id)
  have a: "\<forall>c\<in>set a. is_ws c" by (auto simp: a_def dest: set_takeWhileD)
  have e: "trimEnd (x # t) = x # trimEnd t"
    using trimEnd_prefix [of "[x]" t] x by simp
  have "trimEnd s = a @ x # trimEnd t"
    using trimEnd_nonws [of x "x # t" a] x e by (simp add: s)
  then have l: "trimStart (trimEnd s) = x # trimEnd t"
    using a x by (simp add: trimStart_def dropWhile_append)
  have "trimStart s = x # t" using Cons by (simp add: trimStart_def)
  then show ?thesis using l e by simp
qed

lemma trim_trimEnd: "trim (trimEnd s) = trim s"
  by (simp add: trim_def trim_commute trimEnd_idem)

lemma trim_plain: "s \<noteq> [] \<Longrightarrow> \<not> is_ws (hd s) \<Longrightarrow> \<not> is_ws (last s) \<Longrightarrow> trim s = s"
proof -
  assume ne: "s \<noteq> []" and h: "\<not> is_ws (hd s)" and l: "\<not> is_ws (last s)"
  have "trimEnd s = s"
    using trimEnd_prefix [of s "[]"] ne l by (simp add: trimEnd_def)
  then show ?thesis using ne h by (simp add: trim_def trimStart_keep)
qed

lemma lower_of_upper:
  "c \<in> set upper_letters \<Longrightarrow> toUpperCase_char (toLowerCase_char c) = c \<and> toUpperCase_char c = c"
  unfolding upper_letters_def js_def
  by (auto simp: toUpperCase_char_def toLowerCase_char_def upper_letters_def lower_letters_def
      js_def)

lemma lower_of_other: "c \<notin> set upper_letters \<Longrightarrow> toLowerCase_char c = c"
proof -
  assume "c \<notin> set upper_letters"
  moreover have "length upper_letters = length lower_letters"
    by (simp add: upper_letters_def lower_letters_def js_def)
  ultimately have "map_of (zip upper_letters lower_letters) c = None"
    by (simp add: map_of_zip_is_None)
  then show ?thesis by (simp add: toLowerCase_char_def)
qed

lemma upper_lower_char: "toUpperCase_char (toLowerCase_char c) = toUpperCase_char c"
  by (cases "c \<in> set upper_letters") (simp_all add: lower_of_upper lower_of_other)

lemma toUpperCase_toLowerCase: "toUpperCase (toLowerCase s) = toUpperCase s"
  by (simp add: toUpperCase_def toLowerCase_def upper_lower_char)

lemma upper_wx: "toUpperCase (js ''wx:'') = js ''WX:''"
  by (simp add: toUpperCase_def toUpperCase_char_def upper_letters_def lower_letters_def js_def)

lemma upper_wechat: "toUpperCase (js ''wechat:'') = js ''WECHAT:''"
  by (simp add: toUpperCase_def toUpperCase_char_def upper_letters_def lower_letters_def js_def)

lemma matches_prefix_i_append:
  assumes "toLowerCase p = lit"
  shows "matches_prefix_i lit (p @ r)"
proof -
  have "length p = length lit" using assms by (auto simp: toLowerCase_def)
  moreover have "toUpperCase p = toUpperCase lit"
    using assms toUpperCase_toLowerCase [of p] by simp
  ultimately show ?thesis by (simp add: matches_prefix_i_def)
qed

lemma drop_scheme:
  assumes "toLowerCase p = lit"
  shows "drop (length lit) (p @ r) = r"
proof -
  have "length p = length lit" using assms by (auto simp: toLowerCase_def)
  then show ?thesis by (metis append_eq_conv_conj)
qed

lemma matches_prefix_i_take:
  assumes "matches_prefix_i lit s" and "n \<le> length lit"
  shows "toUpperCase (take n s) = take n (toUpperCase lit)"
proof -
  have "toUpperCase (take (length lit) s) = toUpperCase lit"
    using assms(1) by (simp add: matches_prefix_i_def)
  then have "take n (toUpperCase (take (length lit) s)) = take n (toUpperCase lit)"
    by simp
  moreover have "take n (toUpperCase (take (length lit) s)) = toUpperCase (take n s)"
    using assms(2) by (simp add: toUpperCase_def take_map min_def)
  ultimately show ?thesis by simp
qed

lemma wx_not_wechat:
  assumes "toLowerCase p = js ''wx:''"
  shows "\<not> matches_prefix_i (js ''wechat:'') (p @ r)"
proof
  assume m: "matches_prefix_i (js ''wechat:'') (p @ r)"
  have "length (toLowerCase p) = 3" using assms by (simp add: js_def)
  then have len: "length p = 3" by (simp add: toLowerCase_def)
  have up: "toUpperCase p = js ''WX:''"
    using assms toUpperCase_toLowerCase [of p] upper_wx by simp
  have a: "toUpperCase (take 3 (p @ r)) = take 3 (toUpperCase (js ''wechat:''))"
    using m by (rule matches_prefix_i_take) (simp add: js_def)
  have b: "take 3 (toUpperCase (js ''wechat:'')) = js ''WEC''"
    unfolding upper_wechat by (simp add: js_def)
  have c: "toUpperCase (take 3 (p @ r)) = toUpperCase p" using len by simp
  have "js ''WX:'' = js ''WEC''" using a b c up by simp
  then show False by (simp add: js_def)
qed

lemma strip_wechat: "toLowerCase p = js ''wechat:'' \<Longrightarrow> strip_scheme (p @ r) = r"
  unfolding strip_scheme_def
  using matches_prefix_i_append [of p "js ''wechat:''" r] drop_scheme [of p "js ''wechat:''" r]
  by presburger

lemma strip_wx: "toLowerCase p = js ''wx:'' \<Longrightarrow> strip_scheme (p @ r) = r"
  unfolding strip_scheme_def
  using matches_prefix_i_append [of p "js ''wx:''" r] drop_scheme [of p "js ''wx:''" r]
    wx_not_wechat [of p r]
  by presburger

lemma trim_wrapped:
  assumes w1: "\<forall>c\<in>set w1. is_ws c" and w2: "\<forall>c\<in>set w2. is_ws c"
    and p: "p \<noteq> []" "\<not> is_ws (hd p)" "\<not> is_ws (last p)"
  shows "trim (w1 @ p @ s @ w2) = p @ trimEnd s"
proof -
  have "trimStart (w1 @ p @ s @ w2) = trimStart (p @ s @ w2)"
    using w1 by (rule trimStart_ws_append)
  also have "\<dots> = p @ s @ w2"
    using p by (simp add: trimStart_keep)
  finally have "trim (w1 @ p @ s @ w2) = trimEnd ((p @ s) @ w2)"
    by (simp add: trim_def)
  also have "\<dots> = trimEnd (p @ s)" using w2 by (rule trimEnd_append_ws)
  also have "\<dots> = p @ trimEnd s" using p by (simp add: trimEnd_prefix)
  finally show ?thesis .
qed

lemma ws_not_upper: "is_ws c \<Longrightarrow> c \<notin> set upper_letters"
  by (auto simp: is_ws_def upper_letters_def js_def)

lemma scheme_ends:
  assumes "toLowerCase p = js ''wechat:'' \<or> toLowerCase p = js ''wx:''"
  shows "p \<noteq> [] \<and> \<not> is_ws (hd p) \<and> \<not> is_ws (last p)"
proof -
  have ne: "p \<noteq> []" using assms by (auto simp: toLowerCase_def js_def)
  have h: "toLowerCase_char (hd p) = 119"
    using assms ne by (cases p) (auto simp: toLowerCase_def js_def)
  have l: "toLowerCase_char (last p) = 58"
    using assms ne by (cases p rule: rev_cases) (auto simp: toLowerCase_def js_def)
  have ws: "\<And>c. is_ws c \<Longrightarrow> toLowerCase_char c = c"
    by (rule lower_of_other) (rule ws_not_upper)
  have "\<not> is_ws (hd p)" using h ws [of "hd p"] by (auto simp: is_ws_def)
  moreover have "\<not> is_ws (last p)" using l ws [of "last p"] by (auto simp: is_ws_def)
  ultimately show ?thesis using ne by simp
qed

section \<open>Normalising a prefixed target\<close>

text \<open>
  Claim C6. For every string \<open>s\<close>, every prefix \<open>p\<close> that is \<^verbatim>\<open>wechat:\<close> or \<^verbatim>\<open>wx:\<close> in any
  letter case, and any white space \<open>w1\<close>, \<open>w2\<close> around them (white space as \<open>trim\<close>
  understands it, ASCII or not), normalising \<open>w1 @ p @ s @ w2\<close> gives the trimmed \<open>s\<close>:
  the prefixed destination normalises to the unprefixed trimmed string.
\<close>

theorem normalizeWechatTarget_prefixed:
  assumes "list_all is_ws w1" and "list_all is_ws w2"
    and "toLowerCase p = js ''wechat:'' \<or> toLowerCase p = js ''wx:''"
  shows "normalizeWechatTarget (w1 @ p @ s @ w2) = trim s"
proof -
  have ws: "\<forall>c\<in>set w1. is_ws c" "\<forall>c\<in>set w2. is_ws c"
    using assms(1,2) by (simp_all add: list_all_iff)
  have "trim (w1 @ p @ s @ w2) = p @ trimEnd s"
    using ws assms(3) scheme_ends [of p] by (simp add: trim_wrapped)
  moreover have "strip_scheme (p @ trimEnd s) = trimEnd s"
    using assms(3) strip_wechat strip_wx by blast
  ultimately show ?thesis
    by (simp add: normalizeWechatTarget_def trim_trimEnd)
qed

theorem normalizeWechatTarget_prefixed_witness:
  "list_all is_ws [0x3000, 0x20] \<and> list_all is_ws [0x09, 0xA0]
   \<and> toLowerCase (js ''WeChat:'') = js ''wechat:''
   \<and> normalizeWechatTarget ([0x3000, 0x20] @ js ''WeChat:'' @ (0xA0 # js ''Alice B'') @ [0x09, 0xA0])
       = js ''Alice B''"
proof -
  have h1: "list_all is_ws [0x3000, 0x20]" by (simp add: is_ws_def)
  have h2: "list_all is_ws [0x09, 0xA0]" by (simp add: is_ws_def)
  have h3: "toLowerCase (js ''WeChat:'') = js ''wechat:''"
    by (simp add: string_evals)
  have t: "trim (0xA0 # js ''Alice B'') = js ''Alice B''"
    by (simp add: string_evals)
  show ?thesis
    using normalizeWechatTarget_prefixed [OF h1 h2 disjI1 [OF h3], of "0xA0 # js ''Alice B''"]
      h1 h2 h3 t
    by simp
qed

section \<open>The webhook handler: facts\<close>

lemma respondJson_fresh:
  "\<not> headersSent res \<Longrightarrow>
   respondJson js_env res code payload =
     (json_response js_env res code payload, [ResponseSent code (JSON_stringify js_env payload)])"
  by (simp add: respondJson_def json_response_def Let_def)

lemma token_rejected_neither:
  assumes "\<not> carries (parseBearerToken (headers req (js ''authorization''))) tok"
    and "\<not> carries (first_value (headers req (js ''x-openclaw-token''))) tok"
  shows "token_rejected (presented_token req) tok"
  using assms
  by (auto simp: token_rejected_def presented_token_def carries_def split: option.splits)

lemma read_chunks_too_large:
  "size' \<le> maxBytes \<Longrightarrow> maxBytes < size' + sum_list (map length cs) \<Longrightarrow>
   read_chunks cs maxBytes size' chunks = Inl (Error (js ''payload too large''))"
proof (induction cs arbitrary: size' chunks)
  case Nil
  then show ?case by simp
next
  case (Cons buf rest)
  show ?case
  proof (cases "size' + length buf > maxBytes")
    case True
    then show ?thesis by simp
  next
    case False
    have "maxBytes < (size' + length buf) + sum_list (map length rest)"
      using Cons.prems by simp
    then show ?thesis using False Cons.IH by simp
  qed
qed

lemma readJsonBody_too_large:
  "maxBytes < body_size req \<Longrightarrow> readJsonBody js_env req maxBytes = Inl (Error (js ''payload too large''))"
  by (simp add: readJsonBody_def body_size_def read_chunks_too_large)

lemma handler_past_token_check:
  assumes "webhook_post req" and "passes_token_check (loadConfig runtime) req"
  shows "handleWechatWebhookRequest js_env net (Some runtime) req res =
           handle_body js_env net runtime (loadConfig runtime) req res"
  using assms
  by (auto simp: handleWechatWebhookRequest_def webhook_post_def getWechatRuntime_def
      passes_token_check_def configured_inboundToken_def Let_def)

lemma handle_body_cfg_irrelevant:
  "fst (handle_body js_env net runtime cfg req res) = fst (handle_body js_env net runtime' cfg' req res)
   \<and> fst (snd (handle_body js_env net runtime cfg req res)) = fst (snd (handle_body js_env net runtime' cfg' req res))"
  by (simp add: handle_body_def Let_def split: sum.splits prod.splits)

lemma clear_inboundToken_None: "configured_inboundToken (clear_inboundToken cfg) = None \<or> configured_inboundToken cfg = None"
  by (auto simp: configured_inboundToken_def clear_inboundToken_def resolveWechatAccount_def
      resolveWechatConfig_def Let_def empty_account_config_def split: option.splits)

lemma blank_passes:
  "(case configured_inboundToken cfg of None \<Rightarrow> True | Some tok \<Rightarrow> trim tok = []) \<Longrightarrow>
   passes_token_check cfg req"
  by (auto simp: passes_token_check_def trim_def trimStart_def trimEnd_def split: option.splits)

subsection \<open>The concrete request\<close>

lemma demo_webhook_post: "webhook_post (demo_request auth chunks)"
  by (simp add: webhook_post_def demo_request_def shouldHandlePath_def string_evals)

lemma demo_token: "configured_inboundToken (loadConfig (demo_runtime tok)) = tok"
  by (simp add: configured_inboundToken_def demo_runtime_def demo_config_def
      resolveWechatAccount_def resolveWechatConfig_def Let_def)

lemma demo_bearer_wrong: "parseBearerToken (Single (js ''Bearer guess'')) = Some (js ''guess'')"
  by (simp add: parseBearerToken_def string_evals)

lemma demo_body_trim: "trim (js (concat [demo_body])) = js demo_body"
proof -
  have "trim (js demo_body) = js demo_body"
    by (rule trim_plain) (simp_all add: demo_body_def js_def is_ws_def)
  then show ?thesis by simp
qed

lemma demo_body_read:
  "readJsonBody demo_js (demo_request auth [demo_body]) (256 * 1024) =
     Inr (JObj [(js ''sender'', JStr (js ''Alice'')), (js ''message'', JStr (js ''Hi'')),
                (js ''timestamp'', JNum 1700000000)])"
proof -
  have "length demo_body \<le> 262144" by (simp add: demo_body_def)
  moreover have "demo_body \<noteq> []" by (simp add: demo_body_def)
  moreover have "demo_body \<noteq> ''null''" by (simp add: demo_body_def)
  ultimately show ?thesis
    using demo_body_trim
    by (simp add: readJsonBody_def demo_request_def demo_js_def demo_parse_def)
qed

lemma trim_Alice: "trim (js ''Alice'') = js ''Alice''"
  by (rule trim_plain) (simp_all add: js_def is_ws_def)

lemma trim_Hi: "trim (js ''Hi'') = js ''Hi''"
  by (rule trim_plain) (simp_all add: js_def is_ws_def)

lemma demo_sender:
  "trimmed_field demo_js
     (JObj [(js ''sender'', JStr (js ''Alice'')), (js ''message'', JStr (js ''Hi'')),
            (js ''timestamp'', JNum (1700000000::int))]) (js ''sender'') = Inr (js ''Alice'')"
  by (simp add: trimmed_field_def get_property_def trim_Alice)

lemma demo_message:
  "trimmed_field demo_js
     (JObj [(js ''sender'', JStr (js ''Alice'')), (js ''message'', JStr (js ''Hi'')),
            (js ''timestamp'', JNum (1700000000::int))]) (js ''message'') = Inr (js ''Hi'')"
  by (simp add: trimmed_field_def get_property_def trim_Hi)

lemma trim_empty [simp]: "trim [] = []"
  by (simp add: trim_def trimStart_def trimEnd_def)

lemma demo_no_token: "passes_token_check (loadConfig (demo_runtime None)) req"
  by (simp add: passes_token_check_def demo_token)

subsection \<open>What the inbound pipeline can do\<close>






subsection \<open>The token check\<close>

text \<open>
  Claim C1. A POST to \<^verbatim>\<open>/webhook/wechat\<close> (query string ignored), under a configuration
  whose \<^verbatim>\<open>channels.wechat.inboundToken\<close> trims to a non-empty string, that carries neither
  an Authorization bearer token nor an \<^verbatim>\<open>X-OpenClaw-Token\<close> header whose trimmed value is
  the trimmed configured token: the handler answers 401 with the body
  \<^verbatim>\<open>{ok:false,error:"unauthorized"}\<close>, returns true, and the only event is that response, so
  \<open>handleInbound\<close> is not invoked and nothing is posted or logged. The runtime holder is
  initialised and the response is one that has not been started, as the host hands it
  over (\<open>respondJson\<close> leaves a started response alone).
\<close>

theorem unauthorized_401:
  assumes "webhook_post req"
    and "configured_inboundToken (loadConfig runtime) = Some configured"
    and "trim configured \<noteq> []"
    and "\<not> carries (parseBearerToken (headers req (js ''authorization''))) (trim configured)"
    and "\<not> carries (first_value (headers req (js ''x-openclaw-token''))) (trim configured)"
    and "\<not> headersSent res"
  shows "handleWechatWebhookRequest js_env net (Some runtime) req res =
           (Inr True,
            json_response js_env res 401
              (JObj [(js ''ok'', JBool False), (js ''error'', JStr (js ''unauthorized''))]),
            [ResponseSent 401
               (JSON_stringify js_env
                  (JObj [(js ''ok'', JBool False), (js ''error'', JStr (js ''unauthorized''))]))])"
proof -
  have rej: "token_rejected (presented_token req) (trim configured)"
    using assms(4,5) by (rule token_rejected_neither)
  show ?thesis
    using assms(1,2,3,6) rej
    by (simp add: handleWechatWebhookRequest_def webhook_post_def getWechatRuntime_def
        configured_inboundToken_def Let_def respondJson_fresh)
qed

lemma demo_secret: "trim (0xA0 # js ''s3cret'' @ [0x3000]) = js ''s3cret''"
  by (simp add: string_evals)

theorem unauthorized_401_witness:
  "handleWechatWebhookRequest demo_js demo_net
     (Some (demo_runtime (Some (0xA0 # js ''s3cret'' @ [0x3000]))))
     (demo_request (Single (js ''Bearer guess'')) [demo_body]) fresh_response =
   (Inr True,
    json_response demo_js fresh_response 401
      (JObj [(js ''ok'', JBool False), (js ''error'', JStr (js ''unauthorized''))]),
    [ResponseSent 401
       (js ''{'' @ quoted (js ''ok'') @ js '':false,'' @ quoted (js ''error'') @ js '':''
          @ quoted (js ''unauthorized'') @ js ''}'')])"
proof -
  let ?req = "demo_request (Single (js ''Bearer guess'')) [demo_body]"
  let ?tok = "0xA0 # js ''s3cret'' @ [0x3000]"
  have a: "\<not> carries (parseBearerToken (headers ?req (js ''authorization''))) (trim ?tok)"
    by (simp add: demo_request_def demo_bearer_wrong carries_def demo_secret)
      (simp add: string_evals)
  have b: "\<not> carries (first_value (headers ?req (js ''x-openclaw-token''))) (trim ?tok)"
    by (simp add: demo_request_def carries_def)
  have c: "\<not> headersSent fresh_response" by (simp add: fresh_response_def)
  have d: "trim ?tok \<noteq> []" by (simp add: demo_secret)
  have s: "JSON_stringify demo_js
      (JObj [(js ''ok'', JBool False), (js ''error'', JStr (js ''unauthorized''))]) =
    js ''{'' @ quoted (js ''ok'') @ js '':false,'' @ quoted (js ''error'') @ js '':''
       @ quoted (js ''unauthorized'') @ js ''}''"
    by (simp add: demo_js_def demo_stringify_def js_def)
  show ?thesis
    using unauthorized_401 [OF demo_webhook_post demo_token d a b c, of demo_js demo_net] s
    by simp
qed

text \<open>
  Claim C9. When \<^verbatim>\<open>channels.wechat.inboundToken\<close> is present but only white space (any
  characters that \<open>trim\<close> removes), every POST to the webhook path passes the token check,
  whatever headers it carries: the handler continues with the body-reading stage, and its
  return value and response are those it gives under the same configuration with the
  token removed.
\<close>

theorem blank_token_no_auth:
  assumes "webhook_post req"
    and "configured_inboundToken (loadConfig runtime) = Some tok"
    and "trim tok = []"
  shows "passes_token_check (loadConfig runtime) req
         \<and> handleWechatWebhookRequest js_env net (Some runtime) req res
             = handle_body js_env net runtime (loadConfig runtime) req res
         \<and> fst (handleWechatWebhookRequest js_env net (Some runtime) req res)
             = fst (handleWechatWebhookRequest js_env net
                 (Some (runtime\<lparr>loadConfig := clear_inboundToken (loadConfig runtime)\<rparr>)) req res)
         \<and> fst (snd (handleWechatWebhookRequest js_env net (Some runtime) req res))
             = fst (snd (handleWechatWebhookRequest js_env net
                 (Some (runtime\<lparr>loadConfig := clear_inboundToken (loadConfig runtime)\<rparr>)) req res))"
proof -
  let ?rt0 = "runtime\<lparr>loadConfig := clear_inboundToken (loadConfig runtime)\<rparr>"
  have p: "passes_token_check (loadConfig runtime) req"
    using assms(2,3) by (simp add: blank_passes)
  have "configured_inboundToken (loadConfig ?rt0) = None"
    using clear_inboundToken_None [of "loadConfig runtime"] assms(2) by simp
  then have p0: "passes_token_check (loadConfig ?rt0) req"
    by (simp add: blank_passes)
  have h: "handleWechatWebhookRequest js_env net (Some runtime) req res
             = handle_body js_env net runtime (loadConfig runtime) req res"
    using assms(1) p by (rule handler_past_token_check)
  have h0: "handleWechatWebhookRequest js_env net (Some ?rt0) req res
             = handle_body js_env net ?rt0 (loadConfig ?rt0) req res"
    using assms(1) p0 by (rule handler_past_token_check)
  show ?thesis
    using p h h0
      handle_body_cfg_irrelevant [of js_env net runtime "loadConfig runtime" req res ?rt0
        "loadConfig ?rt0"]
    by simp
qed

theorem blank_token_no_auth_witness:
  "trim [0xA0, 0x3000, 0x09] = []
   \<and> passes_token_check (loadConfig (demo_runtime (Some [0xA0, 0x3000, 0x09])))
        (demo_request (Single (js ''Bearer guess'')) [demo_body])
   \<and> fst (handleWechatWebhookRequest demo_js demo_net
        (Some (demo_runtime (Some [0xA0, 0x3000, 0x09])))
        (demo_request (Single (js ''Bearer guess'')) [demo_body]) fresh_response) = Inr True
   \<and> fst (snd (handleWechatWebhookRequest demo_js demo_net
        (Some (demo_runtime (Some [0xA0, 0x3000, 0x09])))
        (demo_request (Single (js ''Bearer guess'')) [demo_body]) fresh_response))
      = json_response demo_js fresh_response 202 (JObj [(js ''ok'', JBool True)])"
proof -
  let ?req = "demo_request (Single (js ''Bearer guess'')) [demo_body]"
  let ?rt = "demo_runtime (Some [0xA0, 0x3000, 0x09])"
  have t: "trim [0xA0, 0x3000, 0x09] = []" by (simp add: string_evals)
  have b: "handle_body demo_js demo_net ?rt (loadConfig ?rt) ?req fresh_response =
    (Inr True, json_response demo_js fresh_response 202 (JObj [(js ''ok'', JBool True)]),
     snd (snd (handle_body demo_js demo_net ?rt (loadConfig ?rt) ?req fresh_response)))"
    using demo_body_read [of "Single (js ''Bearer guess'')"] demo_sender demo_message
    by (simp add: handle_body_def respondJson_fresh fresh_response_def Let_def
        split: prod.splits)
  show ?thesis
    using blank_token_no_auth [OF demo_webhook_post demo_token t,
        of "Single (js ''Bearer guess'')" "[demo_body]" demo_js demo_net fresh_response] t b
    by (metis fst_conv snd_conv)
qed

subsection \<open>Reading the body\<close>

text \<open>
  Claim C7. A webhook POST that passes the token check and whose body is longer than
  256 KiB (262144 bytes): reading the body fails with \<^verbatim>\<open>payload too large\<close> whatever
  \<open>JSON.parse\<close> would do, so before any parsing, and the handler answers 400 with
  \<^verbatim>\<open>{ok:false, error:"Error: payload too large"}\<close> and returns true. The response is one
  that has not been started when the handler is called.
\<close>

theorem oversized_body_400:
  assumes "webhook_post req"
    and "passes_token_check (loadConfig runtime) req"
    and "256 * 1024 < body_size req"
    and "\<not> headersSent res"
  shows "readJsonBody (js_env\<lparr>JSON_parse := parse\<rparr>) req (256 * 1024)
           = Inl (Error (js ''payload too large''))
         \<and> handleWechatWebhookRequest js_env net (Some runtime) req res =
           (Inr True,
            json_response js_env res 400
              (JObj [(js ''ok'', JBool False),
                     (js ''error'', JStr (js ''Error: payload too large''))]),
            [ResponseSent 400
               (JSON_stringify js_env
                 (JObj [(js ''ok'', JBool False),
                        (js ''error'', JStr (js ''Error: payload too large''))]))])"
proof -
  have r: "\<And>j :: 'a js_builtins.
      readJsonBody j req (256 * 1024) = Inl (Error (js ''payload too large''))"
    using assms(3) by (rule readJsonBody_too_large)
  have e: "String_error (Error (js ''payload too large'')) = js ''Error: payload too large''"
    by (simp add: named_message_def js_def)
  have body: "handle_body js_env net runtime (loadConfig runtime) req res =
           (Inr True,
            json_response js_env res 400
              (JObj [(js ''ok'', JBool False),
                     (js ''error'', JStr (js ''Error: payload too large''))]),
            [ResponseSent 400
               (JSON_stringify js_env
                 (JObj [(js ''ok'', JBool False),
                        (js ''error'', JStr (js ''Error: payload too large''))]))])"
    using assms(4) r [of js_env]
    by (simp add: handle_body_def respondJson_fresh e del: String_error.simps)
  show ?thesis
    unfolding handler_past_token_check [OF assms(1,2)] using body r by blast
qed

theorem oversized_body_400_witness:
  "body_size (demo_request Absent [big_chunk, big_chunk]) = 400000
   \<and> readJsonBody (demo_js\<lparr>JSON_parse := (\<lambda>s. Inr JNull)\<rparr>)
        (demo_request Absent [big_chunk, big_chunk]) (256 * 1024)
      = Inl (Error (js ''payload too large''))
   \<and> handleWechatWebhookRequest demo_js demo_net (Some (demo_runtime None))
        (demo_request Absent [big_chunk, big_chunk]) fresh_response =
      (Inr True,
       json_response demo_js fresh_response 400
         (JObj [(js ''ok'', JBool False), (js ''error'', JStr (js ''Error: payload too large''))]),
       [ResponseSent 400
          (js ''{'' @ quoted (js ''ok'') @ js '':false,'' @ quoted (js ''error'') @ js '':''
             @ quoted (js ''Error: payload too large'') @ js ''}'')])"
proof -
  let ?req = "demo_request Absent [big_chunk, big_chunk]"
  have sz: "body_size ?req = 400000"
    by (simp add: body_size_def demo_request_def big_chunk_def)
  then have big: "256 * 1024 < body_size ?req" by simp
  have c: "\<not> headersSent fresh_response" by (simp add: fresh_response_def)
  have st: "JSON_stringify demo_js
      (JObj [(js ''ok'', JBool False), (js ''error'', JStr (js ''Error: payload too large''))]) =
    js ''{'' @ quoted (js ''ok'') @ js '':false,'' @ quoted (js ''error'') @ js '':''
       @ quoted (js ''Error: payload too large'') @ js ''}''"
    by (simp add: demo_js_def demo_stringify_def js_def)
  show ?thesis
    using oversized_body_400 [OF demo_webhook_post demo_no_token big c,
        where js_env = demo_js and net = demo_net and parse = "\<lambda>s. Inr JNull"] sz st
    by simp
qed

subsection \<open>The required fields\<close>

text \<open>
  When the sender and the message can be read from the parsed body and one of them is
  empty once trimmed, the handler answers 400 and dispatches nothing.
\<close>

lemma missing_fields_400:
  assumes "webhook_post req"
    and "passes_token_check (loadConfig runtime) req"
    and "readJsonBody js_env req (256 * 1024) = Inr payload"
    and "trimmed_field js_env payload (js ''sender'') = Inr sender'"
    and "trimmed_field js_env payload (js ''message'') = Inr text"
    and "sender' = [] \<or> text = []"
    and "\<not> headersSent res"
  shows "handleWechatWebhookRequest js_env net (Some runtime) req res =
           (Inr True,
            json_response js_env res 400
              (JObj [(js ''ok'', JBool False),
                     (js ''error'', JStr (js ''missing sender or message''))]),
            [ResponseSent 400
               (JSON_stringify js_env
                 (JObj [(js ''ok'', JBool False),
                        (js ''error'', JStr (js ''missing sender or message''))]))])"
proof -
  have body: "handle_body js_env net runtime (loadConfig runtime) req res =
           (Inr True,
            json_response js_env res 400
              (JObj [(js ''ok'', JBool False),
                     (js ''error'', JStr (js ''missing sender or message''))]),
            [ResponseSent 400
               (JSON_stringify js_env
                 (JObj [(js ''ok'', JBool False),
                        (js ''error'', JStr (js ''missing sender or message''))]))])"
    using assms(3-7)
    by (auto simp: handle_body_def respondJson_fresh)
  show ?thesis
    unfolding handler_past_token_check [OF assms(1,2)] by (rule body)
qed

text \<open>
  Claim C3, at the body \<^verbatim>\<open>null\<close>. The body parses as JSON and the token check is passed,
  but reading \<^verbatim>\<open>payload.sender\<close> throws: the handler ends with a \<open>TypeError\<close>, no response
  is written and nothing is dispatched.
\<close>

theorem null_body_throws:
  "handleWechatWebhookRequest demo_js demo_net (Some (demo_runtime None)) null_body_request
     fresh_response =
     (Inl (TypeError (js ''Cannot read properties of null (reading '' @ [0x27] @ js ''sender''
             @ [0x27] @ js '')'')),
      fresh_response, [])"
proof -
  have w: "webhook_post null_body_request"
    by (simp add: null_body_request_def demo_webhook_post)
  have t: "trim (js ''null'') = js ''null''"
    by (rule trim_plain) (simp_all add: js_def is_ws_def)
  have r: "readJsonBody demo_js null_body_request (256 * 1024) = Inr JNull"
    using t
    by (simp add: readJsonBody_def null_body_request_def demo_request_def demo_js_def
        demo_parse_def)
  show ?thesis
    unfolding handler_past_token_check [OF w demo_no_token]
    using r by (simp add: handle_body_def trimmed_field_def get_property_def)
qed

subsection \<open>Acknowledgement before dispatch\<close>









section \<open>Outbound delivery: facts\<close>

lemma config_resolveWechatAccount:
  "config (resolveWechatAccount cfg requested) = resolveWechatConfig cfg"
  by (simp add: resolveWechatAccount_def Let_def)


lemma normalizeBaseUrl_Some:
  "trim raw \<noteq> [] \<Longrightarrow> normalizeBaseUrl (Some raw) = Some (strip_trailing_slashes (trim raw))"
  by (simp add: normalizeBaseUrl_def Let_def)

lemma normalizeBaseUrl_missing:
  "(case raw of None \<Rightarrow> True | Some r \<Rightarrow> trim r = []) \<Longrightarrow> normalizeBaseUrl raw = None"
  by (auto simp: normalizeBaseUrl_def Let_def trim_def trimStart_def trimEnd_def
      split: option.splits)


text \<open>
  A base URL made of slashes only (with white space around them or not) is configured in
  the sense of \<open>isConfigured\<close>, which only trims it, but the send functions strip the
  slashes and treat what is left, the empty string, as a missing base URL.
\<close>

lemma send_slashes_only:
  assumes "configured_jsonBotBaseUrl cfg = Some raw"
    and "trim raw \<noteq> []"
    and "strip_trailing_slashes (trim raw) = []"
  shows "isConfigured (resolveWechatAccount cfg (Some DEFAULT_ACCOUNT_ID))
         \<and> sendText net now cfg target message =
             (Inl (Error (js ''wechat: missing channels.wechat.jsonBotBaseUrl'')), [])
         \<and> sendMedia net now cfg target caption mediaUrl =
             (Inl (Error (js ''wechat: missing channels.wechat.jsonBotBaseUrl'')), [])"
proof -
  have r: "jsonBotBaseUrl (resolveWechatConfig cfg) = Some raw"
    using assms(1) by (simp add: configured_jsonBotBaseUrl_def config_resolveWechatAccount)
  have n: "normalizeBaseUrl (Some raw) = Some []"
    using assms(2,3) by (simp add: normalizeBaseUrl_Some)
  show ?thesis
    using assms(2) n
    by (simp add: isConfigured_def sendText_def sendMedia_def config_resolveWechatAccount r)
qed

lemma send_single_slash:
  "isConfigured (resolveWechatAccount slash_config (Some DEFAULT_ACCOUNT_ID))
   \<and> sendText net now slash_config target message =
       (Inl (Error (js ''wechat: missing channels.wechat.jsonBotBaseUrl'')), [])
   \<and> sendMedia net now slash_config target caption mediaUrl =
       (Inl (Error (js ''wechat: missing channels.wechat.jsonBotBaseUrl'')), [])"
proof -
  have c: "configured_jsonBotBaseUrl slash_config = Some (js ''/'')"
    by (simp add: configured_jsonBotBaseUrl_def config_resolveWechatAccount slash_config_def
        resolveWechatConfig_def)
  have t: "trim (js ''/'') = js ''/''"
    by (rule trim_plain) (simp_all add: js_def is_ws_def)
  have s: "strip_trailing_slashes (js ''/'') = []"
    by (simp add: strip_trailing_slashes_def is_slash_def js_def)
  show ?thesis
    by (rule send_slashes_only [OF c]) (simp_all add: t s)
qed

text \<open>
  Claim C5. Under every configuration in which \<^verbatim>\<open>channels.wechat.jsonBotBaseUrl\<close> is absent
  or trims to the empty string (it holds nothing but characters that \<open>trim\<close> removes),
  \<open>sendText\<close> and \<open>sendMedia\<close> both throw the error
  \<^verbatim>\<open>wechat: missing channels.wechat.jsonBotBaseUrl\<close> and issue no network call.
\<close>

theorem send_without_baseUrl:
  assumes "baseUrl_missing cfg"
  shows "sendText net now cfg target message =
           (Inl (Error (js ''wechat: missing channels.wechat.jsonBotBaseUrl'')), [])
         \<and> sendMedia net now cfg target caption mediaUrl =
           (Inl (Error (js ''wechat: missing channels.wechat.jsonBotBaseUrl'')), [])"
proof -
  have "normalizeBaseUrl (jsonBotBaseUrl (resolveWechatConfig cfg)) = None"
    using assms
    by (simp add: baseUrl_missing_def configured_jsonBotBaseUrl_def config_resolveWechatAccount
        normalizeBaseUrl_missing)
  then show ?thesis
    by (simp add: sendText_def sendMedia_def config_resolveWechatAccount)
qed

theorem send_without_baseUrl_witness:
  "baseUrl_missing \<lparr>channels = None\<rparr>
   \<and> sendText demo_net 1700000000000 \<lparr>channels = None\<rparr> (js ''wx:Bob'') (js ''hello'') =
       (Inl (Error (js ''wechat: missing channels.wechat.jsonBotBaseUrl'')), [])
   \<and> baseUrl_missing
       \<lparr>channels = Some [js ''wechat'' \<mapsto>
          \<lparr>enabled = None, name = None, jsonBotBaseUrl = Some [0xA0, 0x2003, 0x0A],
           inboundToken = None\<rparr>]\<rparr>
   \<and> sendMedia demo_net 1700000000000
       \<lparr>channels = Some [js ''wechat'' \<mapsto>
          \<lparr>enabled = None, name = None, jsonBotBaseUrl = Some [0xA0, 0x2003, 0x0A],
           inboundToken = None\<rparr>]\<rparr>
       (js ''wx:Bob'') (Some (js ''look'')) (Some (js ''http://m/a.png'')) =
       (Inl (Error (js ''wechat: missing channels.wechat.jsonBotBaseUrl'')), [])"
proof -
  let ?blank = "\<lparr>channels = Some [js ''wechat'' \<mapsto>
          \<lparr>enabled = None, name = None, jsonBotBaseUrl = Some [0xA0, 0x2003, 0x0A],
           inboundToken = None\<rparr>]\<rparr>"
  have m: "baseUrl_missing \<lparr>channels = None\<rparr>"
    by (simp add: baseUrl_missing_def configured_jsonBotBaseUrl_def resolveWechatAccount_def
        resolveWechatConfig_def empty_account_config_def Let_def)
  have t: "trim [0xA0, 0x2003, 0x0A] = []" by (simp add: string_evals)
  have b: "baseUrl_missing ?blank"
    by (simp add: baseUrl_missing_def configured_jsonBotBaseUrl_def config_resolveWechatAccount
        resolveWechatConfig_def t)
  show ?thesis
    using send_without_baseUrl [OF m, where net = demo_net and now = 1700000000000
        and target = "js ''wx:Bob''" and message = "js ''hello''"]
      send_without_baseUrl [OF b, where net = demo_net and now = 1700000000000
        and target = "js ''wx:Bob''" and caption = "Some (js ''look'')"
        and mediaUrl = "Some (js ''http://m/a.png'')"] m b
    by blast
qed











section \<open>Onboarding: facts\<close>

lemma applyWechatConfig_rebuilt:
  assumes "config_object store cfg" and "patch < length store"
  shows "rebuilt store cfg (applyWechatConfig store cfg patch)
           (\<lambda>current. (current ++ object_at store patch)(js ''enabled'' \<mapsto> VBool True))"
  using assms
  unfolding rebuilt_def applyWechatConfig_def or_empty_object_def alloc_def config_object_def
    record_or_nullish_def nullish_def read_property_def own_properties_def created_def Let_def
  by (auto simp: object_at_def nth_append split: val.splits option.splits)

lemma disable_rebuilt:
  assumes "config_object store cfg"
  shows "rebuilt store cfg (disable store cfg) (\<lambda>current. current(js ''enabled'' \<mapsto> VBool False))"
  using assms
  unfolding rebuilt_def disable_def or_empty_object_def alloc_def config_object_def
    record_or_nullish_def nullish_def read_property_def own_properties_def created_def Let_def
  by (auto simp: object_at_def nth_append split: val.splits option.splits)

lemma config_object_extend:
  "config_object store cfg \<Longrightarrow> config_object (store @ [props]) cfg"
  unfolding config_object_def record_or_nullish_def read_property_def
  by (auto simp: object_at_def nth_append split: val.splits option.splits)

lemma rebuilt_from_extended:
  assumes "config_object store cfg" and "rebuilt (store @ [props]) cfg result f"
  shows "rebuilt store cfg result f"
proof -
  let ?s1 = "store @ [props]"
  have cfg: "cfg < length store" using assms(1) by (simp add: config_object_def)
  have o: "object_at ?s1 cfg = object_at store cfg"
    using cfg by (simp add: object_at_def nth_append)
  then have c: "read_property ?s1 (VRef cfg) (js ''channels'') = read_property store (VRef cfg) (js ''channels'')"
    by (simp add: read_property_def)
  have rc: "record_or_nullish store (read_property store (VRef cfg) (js ''channels''))"
    using assms(1) by (simp add: config_object_def)
  have same: "\<And>v. record_or_nullish store v \<Longrightarrow>
      own_properties ?s1 v = own_properties store v \<and>
      read_property ?s1 v (js ''wechat'') = read_property store v (js ''wechat'')"
    by (auto simp: record_or_nullish_def own_properties_def read_property_def object_at_def
        nth_append split: val.splits)
  have rw: "record_or_nullish store
      (read_property store (read_property store (VRef cfg) (js ''channels'')) (js ''wechat''))"
    using assms(1) by (simp add: config_object_def)
  have t: "take (length ?s1) (snd result) = ?s1 \<Longrightarrow> take (length store) (snd result) = store"
    by (metis append_eq_conv_conj take_take min.cobounded1 length_append le_add1 min_absorb1 take_all_iff order_refl)
  have cr: "\<And>v. created ?s1 (snd result) v \<Longrightarrow> created store (snd result) v"
    by (auto simp: created_def split: val.splits)
  show ?thesis
    using assms(2) t cr
    unfolding rebuilt_def Let_def c o same [OF rc, THEN conjunct1] same [OF rc, THEN conjunct2]
      same [OF rw, THEN conjunct1]
    by blast
qed

lemma configure_rebuilt:
  assumes "config_object store cfg"
  shows "rebuilt store cfg (fst (fst (configure store cfg nextBaseUrl nextInboundToken)),
             snd (configure store cfg nextBaseUrl nextInboundToken))
           (\<lambda>current. current
              (js ''jsonBotBaseUrl'' \<mapsto> optional_string (normalizeBaseUrl (Some nextBaseUrl)),
               js ''inboundToken'' \<mapsto> optional_string
                  (if trim (case nextInboundToken of None \<Rightarrow> [] | Some t \<Rightarrow> t) = [] then None
                   else Some (trim (case nextInboundToken of None \<Rightarrow> [] | Some t \<Rightarrow> t))),
               js ''enabled'' \<mapsto> VBool True))"
proof -
  define patch :: "'a obj" where "patch =
     [js ''jsonBotBaseUrl'' \<mapsto> optional_string (normalizeBaseUrl (Some nextBaseUrl)),
      js ''inboundToken'' \<mapsto> optional_string
         (if trim (case nextInboundToken of None \<Rightarrow> [] | Some t \<Rightarrow> t) = [] then None
          else Some (trim (case nextInboundToken of None \<Rightarrow> [] | Some t \<Rightarrow> t)))]"
  let ?s1 = "store @ [patch]"
  have r: "(fst (fst (configure store cfg nextBaseUrl nextInboundToken)),
             snd (configure store cfg nextBaseUrl nextInboundToken))
           = applyWechatConfig ?s1 cfg (length store)"
    by (simp add: configure_def alloc_def Let_def patch_def split: prod.splits)
  have "rebuilt ?s1 cfg (applyWechatConfig ?s1 cfg (length store))
           (\<lambda>current. (current ++ object_at ?s1 (length store))(js ''enabled'' \<mapsto> VBool True))"
    by (rule applyWechatConfig_rebuilt) (simp_all add: config_object_extend assms)
  moreover have "object_at ?s1 (length store) = patch" by (simp add: object_at_def)
  moreover have "\<And>current. current ++ patch = current
              (js ''jsonBotBaseUrl'' \<mapsto> optional_string (normalizeBaseUrl (Some nextBaseUrl)),
               js ''inboundToken'' \<mapsto> optional_string
                  (if trim (case nextInboundToken of None \<Rightarrow> [] | Some t \<Rightarrow> t) = [] then None
                   else Some (trim (case nextInboundToken of None \<Rightarrow> [] | Some t \<Rightarrow> t))))"
    by (simp add: patch_def)
  ultimately have "rebuilt ?s1 cfg (applyWechatConfig ?s1 cfg (length store))
           (\<lambda>current. current
              (js ''jsonBotBaseUrl'' \<mapsto> optional_string (normalizeBaseUrl (Some nextBaseUrl)),
               js ''inboundToken'' \<mapsto> optional_string
                  (if trim (case nextInboundToken of None \<Rightarrow> [] | Some t \<Rightarrow> t) = [] then None
                   else Some (trim (case nextInboundToken of None \<Rightarrow> [] | Some t \<Rightarrow> t))),
               js ''enabled'' \<mapsto> VBool True))"
    by simp
  then show ?thesis
    unfolding r using assms by (rule rebuilt_from_extended [rotated])
qed

text \<open>
  Claim C10. \<open>applyWechatConfig\<close>, \<open>configure\<close> (which calls it) and \<open>disable\<close> change no
  object of the input store and return a configuration created by the call, in which
  every top-level property other than \<open>channels\<close> and every channel entry other than
  \<open>wechat\<close> is as before. The new \<open>wechat\<close> entry has the old properties overridden by those
  of the patch and by \<^verbatim>\<open>enabled: true\<close> (for \<open>configure\<close> the patch sets \<open>jsonBotBaseUrl\<close>
  and \<open>inboundToken\<close>); for \<open>disable\<close> it has the old properties with \<^verbatim>\<open>enabled: false\<close>.
\<close>

theorem onboarding_rebuilds_config:
  assumes "config_object store cfg" and "patch < length store"
  shows "rebuilt store cfg (applyWechatConfig store cfg patch)
           (\<lambda>current. (current ++ object_at store patch)(js ''enabled'' \<mapsto> VBool True))
         \<and> rebuilt store cfg
             (fst (fst (configure store cfg nextBaseUrl nextInboundToken)),
              snd (configure store cfg nextBaseUrl nextInboundToken))
             (\<lambda>current. current
                (js ''jsonBotBaseUrl'' \<mapsto> optional_string (normalizeBaseUrl (Some nextBaseUrl)),
                 js ''inboundToken'' \<mapsto> optional_string
                    (if trim (case nextInboundToken of None \<Rightarrow> [] | Some t \<Rightarrow> t) = [] then None
                     else Some (trim (case nextInboundToken of None \<Rightarrow> [] | Some t \<Rightarrow> t))),
                 js ''enabled'' \<mapsto> VBool True))
         \<and> rebuilt store cfg (disable store cfg)
             (\<lambda>current. current(js ''enabled'' \<mapsto> VBool False))"
  using applyWechatConfig_rebuilt [OF assms] configure_rebuilt [OF assms(1)]
    disable_rebuilt [OF assms(1)]
  by blast

theorem onboarding_rebuilds_config_witness:
  "config_object demo_store 0
   \<and> take (length demo_store) (snd (applyWechatConfig demo_store 0 5)) = demo_store
   \<and> created demo_store (snd (applyWechatConfig demo_store 0 5))
        (fst (applyWechatConfig demo_store 0 5))
   \<and> own_properties (snd (applyWechatConfig demo_store 0 5))
        (fst (applyWechatConfig demo_store 0 5)) (js ''session'') = Some (VRef 3)
   \<and> own_properties (snd (applyWechatConfig demo_store 0 5))
        (read_property (snd (applyWechatConfig demo_store 0 5))
           (fst (applyWechatConfig demo_store 0 5)) (js ''channels'')) (js ''telegram'') = Some (VRef 4)
   \<and> own_properties (snd (applyWechatConfig demo_store 0 5))
        (read_property (snd (applyWechatConfig demo_store 0 5))
           (read_property (snd (applyWechatConfig demo_store 0 5))
              (fst (applyWechatConfig demo_store 0 5)) (js ''channels'')) (js ''wechat''))
      = [js ''name'' \<mapsto> VStr (js ''bot''), js ''jsonBotBaseUrl'' \<mapsto> VStr (js ''http://h''),
         js ''inboundToken'' \<mapsto> VUndefined, js ''enabled'' \<mapsto> VBool True]
   \<and> take (length demo_store) (snd (disable demo_store 0)) = demo_store
   \<and> own_properties (snd (disable demo_store 0))
        (read_property (snd (disable demo_store 0))
           (read_property (snd (disable demo_store 0))
              (fst (disable demo_store 0)) (js ''channels'')) (js ''wechat''))
      = [js ''name'' \<mapsto> VStr (js ''bot''), js ''jsonBotBaseUrl'' \<mapsto> VStr (js ''http://old''),
         js ''enabled'' \<mapsto> VBool False]"
proof -
  have c: "config_object demo_store 0"
    by (simp add: config_object_def demo_store_def read_property_def object_at_def
        record_or_nullish_def)
  have p: "5 < length demo_store" by (simp add: demo_store_def)
  note r = onboarding_rebuilds_config [OF c p, of "js ''http://h/''" None]
  have cur: "own_properties demo_store
      (read_property demo_store (read_property demo_store (VRef 0) (js ''channels'')) (js ''wechat''))
      = [js ''name'' \<mapsto> VStr (js ''bot''), js ''jsonBotBaseUrl'' \<mapsto> VStr (js ''http://old''),
       js ''enabled'' \<mapsto> VBool False]"
    by (simp add: demo_store_def read_property_def object_at_def own_properties_def)
  have patch: "object_at demo_store 5 =
      [js ''jsonBotBaseUrl'' \<mapsto> VStr (js ''http://h''), js ''inboundToken'' \<mapsto> VUndefined]"
    by (simp add: demo_store_def object_at_def)
  have a: "rebuilt demo_store 0 (applyWechatConfig demo_store 0 5)
           (\<lambda>current. (current ++ object_at demo_store 5)(js ''enabled'' \<mapsto> VBool True))"
    using r by blast
  have d: "rebuilt demo_store 0 (disable demo_store 0)
             (\<lambda>current. current(js ''enabled'' \<mapsto> VBool False))"
    using r by blast
  have a1: "take (length demo_store) (snd (applyWechatConfig demo_store 0 5)) = demo_store"
    and a2: "created demo_store (snd (applyWechatConfig demo_store 0 5))
        (fst (applyWechatConfig demo_store 0 5))"
    and a3: "own_properties (snd (applyWechatConfig demo_store 0 5))
        (fst (applyWechatConfig demo_store 0 5)) (js ''session'') = object_at demo_store 0 (js ''session'')"
    and a4: "own_properties (snd (applyWechatConfig demo_store 0 5))
        (read_property (snd (applyWechatConfig demo_store 0 5))
           (fst (applyWechatConfig demo_store 0 5)) (js ''channels'')) (js ''telegram'')
        = own_properties demo_store (read_property demo_store (VRef 0) (js ''channels'')) (js ''telegram'')"
    and a5: "own_properties (snd (applyWechatConfig demo_store 0 5))
        (read_property (snd (applyWechatConfig demo_store 0 5))
           (read_property (snd (applyWechatConfig demo_store 0 5))
              (fst (applyWechatConfig demo_store 0 5)) (js ''channels'')) (js ''wechat''))
      = (own_properties demo_store
          (read_property demo_store (read_property demo_store (VRef 0) (js ''channels'')) (js ''wechat''))
          ++ object_at demo_store 5)(js ''enabled'' \<mapsto> VBool True)"
    using a unfolding rebuilt_def Let_def by simp_all
  have d1: "take (length demo_store) (snd (disable demo_store 0)) = demo_store"
    and d5: "own_properties (snd (disable demo_store 0))
        (read_property (snd (disable demo_store 0))
           (read_property (snd (disable demo_store 0))
              (fst (disable demo_store 0)) (js ''channels'')) (js ''wechat''))
      = (own_properties demo_store
          (read_property demo_store (read_property demo_store (VRef 0) (js ''channels'')) (js ''wechat'')))
          (js ''enabled'' \<mapsto> VBool False)"
    using d unfolding rebuilt_def Let_def by simp_all
  have s: "object_at demo_store 0 (js ''session'') = Some (VRef 3)"
    by (simp add: demo_store_def object_at_def)
  have t: "own_properties demo_store (read_property demo_store (VRef 0) (js ''channels'')) (js ''telegram'')
      = Some (VRef 4)"
    by (simp add: demo_store_def read_property_def object_at_def own_properties_def)
  have m1: "([js ''name'' \<mapsto> VStr (js ''bot''), js ''jsonBotBaseUrl'' \<mapsto> VStr (js ''http://old''),
       js ''enabled'' \<mapsto> VBool False] ++
       [js ''jsonBotBaseUrl'' \<mapsto> VStr (js ''http://h''), js ''inboundToken'' \<mapsto> VUndefined])
       (js ''enabled'' \<mapsto> VBool True)
     = [js ''name'' \<mapsto> VStr (js ''bot''), js ''jsonBotBaseUrl'' \<mapsto> VStr (js ''http://h''),
         js ''inboundToken'' \<mapsto> (VUndefined :: int val), js ''enabled'' \<mapsto> VBool True]"
    by (auto simp: fun_eq_iff map_add_def)
  have m2: "[js ''name'' \<mapsto> VStr (js ''bot''), js ''jsonBotBaseUrl'' \<mapsto> VStr (js ''http://old''),
       js ''enabled'' \<mapsto> VBool False](js ''enabled'' \<mapsto> VBool False)
     = [js ''name'' \<mapsto> VStr (js ''bot''), js ''jsonBotBaseUrl'' \<mapsto> VStr (js ''http://old''),
         js ''enabled'' \<mapsto> (VBool False :: int val)]"
    by (auto simp: fun_eq_iff)
  show ?thesis
    using c a1 a2 a3 a4 a5 d1 d5
    unfolding cur patch s t m1 m2
    by blast
qed

end
